theory Spec2Isabelle
  imports Complex_Main
begin

section \<open>Secular dynamics of hierarchical triples: the model\<close>

text \<open>
  The development embeds the two classes of the repository, \<^verbatim>\<open>Triple\<close> of
  \<^verbatim>\<open>triplesec.py\<close> (all three bodies massive, Delaunay elements) and
  \<^verbatim>\<open>Triple_vector\<close> of \<^verbatim>\<open>ts_vector.py\<close> (test particle, vectorial elements).

  Conventions of the embedding.
  \<^item> Python floats are read as real numbers. Rounding, infinities and NaN are outside the
    model; where a quotient with a zero divisor decides a statement, the quotient is
    modelled with an \<open>option\<close> (\<open>None\<close> stands for "not a number"). Elsewhere the
    formulas are the total functions of HOL: for arguments outside the physical range
    (eccentricities of modulus one or more, masses or semi-major axes that are not
    positive), where Python refuses a zero divisor, a square root or a fractional power,
    or \<^verbatim>\<open>numpy\<close> answers NaN, the model still has a value. The statements below that
    compute with such formulas do so at arguments inside the range; the others hold for
    the value of the model wherever the source returns one.
  \<^item> \<^verbatim>\<open>np.pi\<close> is a float as well. In \<^verbatim>\<open>Triple\<close> it is read as the number \<open>\<pi>\<close>. The
    constructor of \<^verbatim>\<open>Triple_vector\<close> takes its value as a parameter \<open>np_pi\<close>: what is
    stated for the constructor holds for every value, the objects of the concrete runs are
    built with \<open>\<pi>\<close>, and the one statement that depends on the difference between the
    float and \<open>\<pi>\<close> (the root function at an inclination of 180 degrees) is made for the
    float itself, \<open>pi_double\<close>.
  \<^item> An object is a record; the field \<^verbatim>\<open>self.x\<close> of \<^verbatim>\<open>Triple\<close> is \<open>tr_x\<close>,
    of \<^verbatim>\<open>Triple_vector\<close> it is \<open>tv_x\<close>, and a leading underscore of the source is kept
    (\<^verbatim>\<open>self._a1\<close> is \<open>tr__a1\<close>).
  \<^item> A raised exception is \<open>Inl\<close> of the exception class.
  \<^item> The module \<^verbatim>\<open>ts_constants\<close> is not part of the sources at hand; the five names the
    code takes from it are fields of the record \<open>constants\<close>, a parameter of every function
    that reads one. \<^verbatim>\<open>Triple.printflips\<close> also reads a name \<^verbatim>\<open>e\<close> that no statement of
    \<^verbatim>\<open>triplesec.py\<close> binds; \<open>glob_e\<close> is what the star import binds it to, \<open>None\<close> when
    it binds nothing (the lookup then raises \<^verbatim>\<open>NameError\<close>).
  \<^item> The constructors are modelled for numeric arguments and without the optional JSON dump
    of the properties (\<^verbatim>\<open>properties_outfilename\<close> is left at its default \<^verbatim>\<open>None\<close>);
    \<open>writable\<close> says which file names \<^verbatim>\<open>open(name, 'w')\<close> accepts.
  \<^item> The ODE solver of \<^verbatim>\<open>scipy.integrate\<close> is a black box: a solver object carries its time,
    its state vector and a hidden internal state, and one call of
    \<^verbatim>\<open>solver.integrate(tstop, step=True)\<close> is a function \<open>adv\<close> on solver objects, a
    parameter of the stepping functions.
  \<^item> \<^verbatim>\<open>time.time()\<close> is a parameter \<open>clock\<close>: \<open>clock 0\<close> is the reading that
    \<^verbatim>\<open>tstart\<close> receives, \<open>clock (Suc i)\<close> the reading taken by the loop test before the
    iteration number \<open>i\<close>.
  \<^item> A \<^verbatim>\<open>while\<close> loop that depends on the solver need not terminate; it is a recursive
    function over a fuel argument, with \<open>None\<close> for "fuel exhausted".
\<close>

subsection \<open>Exceptions, constants and small helpers\<close>

datatype error = TypeError | ValueError | NameError | AttributeError | ZeroDivisionError | IOError

record constants =
  const_G :: real
  const_c :: real
  M_sun :: real
  au :: real
  yr2s :: real
  glob_e :: "real option"

type_synonym vec3 = "real \<times> real \<times> real"
type_synonym vec6 = "real \<times> real \<times> real \<times> real \<times> real \<times> real"

text \<open>\<^verbatim>\<open>x % (2 * np.pi)\<close> on floats: the result has the sign of the divisor.\<close>

definition fmod :: "real \<Rightarrow> real \<Rightarrow> real" where
  "fmod x m = x - m * of_int \<lfloor>x / m\<rfloor>"

text \<open>Arithmetic with an operand that may be \<^verbatim>\<open>None\<close> raises \<^verbatim>\<open>TypeError\<close>.\<close>

definition py_mul :: "real option \<Rightarrow> real \<Rightarrow> error + real" where
  "py_mul x y = (case x of None \<Rightarrow> Inl TypeError | Some v \<Rightarrow> Inr (v * y))"

definition py_sqr :: "real option \<Rightarrow> error + real" where
  "py_sqr x = (case x of None \<Rightarrow> Inl TypeError | Some v \<Rightarrow> Inr (v ^ 2))"

subsection \<open>The solver object and the output\<close>

record 'h solver =
  sol_t :: real
  sol_y :: vec6
  sol_hidden :: 'h

datatype fstatus = FOpen | FClosed

text \<open>
  An output line is the list of the numbers it holds (their formatting by \<^verbatim>\<open>str\<close> is not
  modelled). \<open>stdout\<close> collects what \<^verbatim>\<open>print\<close> writes, \<open>filebuf\<close> what is written to the
  output file.
\<close>

type_synonym line = "real list"

subsection \<open>The class \<^verbatim>\<open>Triple\<close>\<close>

record 'h triple =
  tr_a1 :: real
  tr_a2 :: real
  tr_e1 :: real
  tr_e2 :: real
  tr_inc :: real
  tr_g1 :: real
  tr_g2 :: real
  tr_m1 :: real
  tr_m2 :: real
  tr_m3 :: real
  tr_r1 :: real
  tr_r2 :: real
  tr_tstop :: real
  tr_cputstop :: real
  tr_outfreq :: int
  tr_epsoct :: real
  tr_t :: real
  tr__t :: real
  tr_th :: real
  tr__m1 :: real
  tr__m2 :: real
  tr__m3 :: real
  tr__a1 :: real
  tr__a2 :: real
  tr_quadrupole :: bool
  tr_octupole :: bool
  tr_hexadecapole :: bool
  tr_gr :: bool
  tr_C2 :: real
  tr_C3 :: real
  tr__G1 :: real
  tr__G2 :: real
  tr__H :: real
  tr_cosphi :: real
  tr_outfilename :: "string option"
  tr_outfile :: "fstatus option"
  tr_nstep :: int
  tr_atol :: real
  tr_rtol :: real
  tr_collision :: bool
  tr_integration_algo :: string
  tr__y :: vec6
  tr_solver :: "'h solver"
  tr_tstart :: real
  tr_stdout :: "line list"
  tr_filebuf :: "line list"

text \<open>
  \<open>tr_outfile\<close> is \<open>None\<close> while the attribute \<^verbatim>\<open>outfile\<close> does not exist (no file name was
  given), otherwise the status of the file object.
\<close>

definition calc_cosphi :: "'h triple \<Rightarrow> 'h triple" where
  "calc_cosphi s = s\<lparr>tr_cosphi :=
     (- cos (tr_g1 s) * cos (tr_g2 s) - tr_th s * sin (tr_g1 s) * sin (tr_g2 s))\<rparr>"

definition calc_G1 :: "constants \<Rightarrow> 'h triple \<Rightarrow> 'h triple" where
  "calc_G1 k s = s\<lparr>tr__G1 :=
     (tr__m1 s * tr__m2 s * sqrt (const_G k * tr__a1 s * (1 - tr_e1 s ^ 2) /
       (tr__m1 s + tr__m2 s)))\<rparr>"

definition calc_G2 :: "constants \<Rightarrow> 'h triple \<Rightarrow> 'h triple" where
  "calc_G2 k s = s\<lparr>tr__G2 :=
     ((tr__m1 s + tr__m2 s) * tr__m3 s * sqrt (const_G k * tr__a2 s * (1 - tr_e2 s ^ 2) /
       (tr__m1 s + tr__m2 s + tr__m3 s)))\<rparr>"

definition calc_C :: "constants \<Rightarrow> 'h triple \<Rightarrow> 'h triple" where
  "calc_C k s =
     (let G = const_G k;
          s1 = (if tr_quadrupole s
                then s\<lparr>tr_C2 := (G * tr__m1 s * tr__m2 s * tr__m3 s / (16 * (tr__m1 s +
                       tr__m2 s) * tr__a2 s * (1 - tr_e2 s ^ 2) powr (3 / 2)) * (tr__a1 s /
                       tr__a2 s) ^ 2)\<rparr>
                else s\<lparr>tr_C2 := 0\<rparr>)
      in if tr_octupole s1
         then s1\<lparr>tr_C3 := (15 * G * tr__m1 s1 * tr__m2 s1 * tr__m3 s1 * (tr__m1 s1 -
                tr__m2 s1) / (64 * (tr__m1 s1 + tr__m2 s1) ^ 2 * tr__a2 s1 * (1 -
                tr_e2 s1 ^ 2) powr (5 / 2)) * (tr__a1 s1 / tr__a2 s1) ^ 3)\<rparr>
         else s1\<lparr>tr_C3 := 0\<rparr>)"

definition calc_th :: "'h triple \<Rightarrow> 'h triple" where
  "calc_th s = s\<lparr>tr_th :=
     ((tr__H s ^ 2 - tr__G1 s ^ 2 - tr__G2 s ^ 2) / (2 * tr__G1 s * tr__G2 s))\<rparr>"

definition calc_cosi :: "'h triple \<Rightarrow> 'h triple" where
  "calc_cosi s = calc_th s"

text \<open>
  \<^verbatim>\<open>update\<close> calls the five \<^verbatim>\<open>calc_\<close> methods (\<open>refresh\<close>) and converts the
  inclination, the semi-major axis and the time; \<^verbatim>\<open>math.acos\<close> raises \<^verbatim>\<open>ValueError\<close>
  outside \<open>[-1, 1]\<close>.
\<close>

definition refresh :: "constants \<Rightarrow> 'h triple \<Rightarrow> 'h triple" where
  "refresh k s = calc_th (calc_G2 k (calc_G1 k (calc_cosphi (calc_C k s))))"

definition update :: "constants \<Rightarrow> 'h triple \<Rightarrow> error + 'h triple" where
  "update k s =
     (let s5 = refresh k s
      in if tr_th s5 < - 1 \<or> 1 < tr_th s5 then Inl ValueError
         else Inr (s5\<lparr>tr_inc := arccos (tr_th s5) * 180 / pi,
                       tr_a1 := tr__a1 s5 / au k,
                       tr_t := tr__t s5 / yr2s k\<rparr>))"

subsection \<open>The equations of motion of \<^verbatim>\<open>Triple\<close>\<close>

text \<open>
  \<^verbatim>\<open>Triple._deriv\<close> first computes the locals \<open>G1\<close>, \<open>G2\<close>, \<open>C2\<close>, \<open>C3\<close>, \<open>th\<close>,
  \<open>cosphi\<close>, \<open>B\<close> and \<open>A\<close> from the state vector \<open>y\<close> and the masses and outer semi-major
  axis of the object, then the six components. Each local is a function of its own here,
  so that the components can name them; each component is the sum the source accumulates
  with \<^verbatim>\<open>+=\<close> under its flags.
\<close>

definition deriv_G1 :: "constants \<Rightarrow> 'h triple \<Rightarrow> vec6 \<Rightarrow> real" where
  "deriv_G1 k s y =
     (case y of (a1, e1, g1, e2, g2, H) \<Rightarrow>
      let G = const_G k; m1 = tr__m1 s; m2 = tr__m2 s
      in m1 * m2 * sqrt (G * a1 * (1 - e1 ^ 2) / (m1 + m2)))"

definition deriv_G2 :: "constants \<Rightarrow> 'h triple \<Rightarrow> vec6 \<Rightarrow> real" where
  "deriv_G2 k s y =
     (case y of (a1, e1, g1, e2, g2, H) \<Rightarrow>
      let G = const_G k; m1 = tr__m1 s; m2 = tr__m2 s; m3 = tr__m3 s; a2 = tr__a2 s
      in (m1 + m2) * m3 * sqrt (G * a2 * (1 - e2 ^ 2) / (m1 + m2 + m3)))"

definition deriv_C2 :: "constants \<Rightarrow> 'h triple \<Rightarrow> vec6 \<Rightarrow> real" where
  "deriv_C2 k s y =
     (case y of (a1, e1, g1, e2, g2, H) \<Rightarrow>
      let G = const_G k; m1 = tr__m1 s; m2 = tr__m2 s; m3 = tr__m3 s; a2 = tr__a2 s
      in (G * m1 * m2 * m3 / (16 * (m1 + m2) * a2 * (1 - e2 ^ 2) powr (3 / 2)) *
          (a1 / a2) ^ 2))"

definition deriv_C3 :: "constants \<Rightarrow> 'h triple \<Rightarrow> vec6 \<Rightarrow> real" where
  "deriv_C3 k s y =
     (case y of (a1, e1, g1, e2, g2, H) \<Rightarrow>
      let G = const_G k; m1 = tr__m1 s; m2 = tr__m2 s; m3 = tr__m3 s; a2 = tr__a2 s
      in (15 * G * m1 * m2 * m3 * (m2 - m1) / (64 * (m1 + m2) ^ 2 * a2 *
          (1 - e2 ^ 2) powr (5 / 2)) * (a1 / a2) ^ 3))"

definition deriv_th :: "constants \<Rightarrow> 'h triple \<Rightarrow> vec6 \<Rightarrow> real" where
  "deriv_th k s y =
     (case y of (a1, e1, g1, e2, g2, H) \<Rightarrow>
      let G1 = deriv_G1 k s y; G2 = deriv_G2 k s y
      in (H ^ 2 - G1 ^ 2 - G2 ^ 2) / (2 * G1 * G2))"

definition deriv_cosphi :: "constants \<Rightarrow> 'h triple \<Rightarrow> vec6 \<Rightarrow> real" where
  "deriv_cosphi k s y =
     (case y of (a1, e1, g1, e2, g2, H) \<Rightarrow>
      let sing1 = sin g1; sing2 = sin g2; cosg1 = cos g1; cosg2 = cos g2;
          th = deriv_th k s y
      in cosg1 * cosg2 - th * sing1 * sing2)"

definition deriv_B :: "vec6 \<Rightarrow> real" where
  "deriv_B y =
     (case y of (a1, e1, g1, e2, g2, H) \<Rightarrow> 2 + 5 * e1 ^ 2 - 7 * e1 ^ 2 * cos (2 * g1))"

definition deriv_A :: "constants \<Rightarrow> 'h triple \<Rightarrow> vec6 \<Rightarrow> real" where
  "deriv_A k s y =
     (case y of (a1, e1, g1, e2, g2, H) \<Rightarrow>
      let th = deriv_th k s y; B = deriv_B y
      in 4 + 3 * e1 ^ 2 - 5 / 2 * (1 - th ^ 2) * B)"

definition da1dt :: "constants \<Rightarrow> 'h triple \<Rightarrow> vec6 \<Rightarrow> real" where
  "da1dt k s y =
     (case y of (a1, e1, g1, e2, g2, H) \<Rightarrow>
      let G = const_G k; c = const_c k; m1 = tr__m1 s; m2 = tr__m2 s
      in 0 + (if tr_gr s then
            (-(64 * G ^ 3 * m1 * m2 * (m1 + m2) / (5 * c ^ 5 * a1 ^ 3 * sqrt ((1 - e1 ^ 2) ^ 7))
             * (1 + 73 / 24 * e1 ^ 2 + 37 / 96 * e1 ^ 4)))
          else 0))"

definition dg1dt :: "constants \<Rightarrow> 'h triple \<Rightarrow> vec6 \<Rightarrow> real" where
  "dg1dt k s y =
     (case y of (a1, e1, g1, e2, g2, H) \<Rightarrow>
      let G = const_G k; c = const_c k;
          sing1 = sin g1; sing2 = sin g2; cosg1 = cos g1; cosg2 = cos g2;
          m1 = tr__m1 s; m2 = tr__m2 s; m3 = tr__m3 s; a2 = tr__a2 s;
          G1 = deriv_G1 k s y; G2 = deriv_G2 k s y;
          C2 = deriv_C2 k s y; C3 = deriv_C3 k s y;
          th = deriv_th k s y; cosphi = deriv_cosphi k s y;
          B = deriv_B y; A = deriv_A k s y
      in 0
       + (if tr_quadrupole s then
            ((6 * C2 * (1 / G1 * (4 * th ^ 2 + (5 * cos (2 * g1) - 1) * (1 - e1 ^ 2 - th ^ 2)) +
             th / G2 * (2 + e1 ^ 2 * (3 - 5 * cos (2 * g1))))))
          else 0)
       + (if tr_octupole s then
            ((C3 * e2 * e1 * (1 / G2 + th / G1) * (sing1 * sing2 * (A + 10 * (3 * th ^ 2 - 1) *
             (1 - e1 ^ 2)) - 5 * th * B * cosphi) - C3 * e2 * (1 - e1 ^ 2) / (e1 * G1) * (10 *
             th * (1 - th ^ 2) * (1 - 3 * e1 ^ 2) * sing1 * sing2 + cosphi * (3 * A - 10 * th ^
             2 + 2))))
          else 0)
       + (if tr_gr s then
            (((3 / (c ^ 2 * a1 * (1 - e1 ^ 2)) * sqrt ((G * (m1 + m2) / a1) ^ 3))))
          else 0)
       + (if tr_hexadecapole s then
            ((1 / (4096 * a2 ^ 5 * sqrt (1 - e1 ^ 2) * (m1 + m2) ^ 5) * 45 * a1 ^ 3 * sqrt (a1 *
             G * (m1 + m2)) * (-1 / ((e2 ^ 2 - 1) ^ 4 * sqrt (a2 * G * (m1 + m2 + m3))) * (m1 ^
             2 - m1 * m2 + m2 ^ 2) * (sqrt (1 - e2 ^ 2) * m2 ^ 2 * m3 * sqrt (a2 * G * (m1 + m2
             + m3)) * th + m1 ^ 2 * (sqrt (1 - e1 ^ 2) * m2 * sqrt (a1 * G * (m1 + m2)) + sqrt
             (1 - e2 ^ 2) * m3 * sqrt (a2 * G * (m1 + m2 + m3)) * th) + m1 * m2 * (sqrt (1 - e1
             ^ 2) * m2 * sqrt (a1 * G * (m1 + m2)) + sqrt (1 - e1 ^ 2) * sqrt (a1 * G * (m1 +
             m2)) * m3 + 2 * sqrt (1 - e2 ^ 2) * m3 * sqrt (a2 * G * (m1 + m2 + m3)) * th)) *
             (96 * th + 480 * e1 ^ 2 * th + 180 * e1 ^ 4 * th + 144 * e2 ^ 2 * th + 720 * e1 ^ 2
             * e2 ^ 2 * th + 270 * e1 ^ 4 * e2 ^ 2 * th - 224 * th ^ 3 - 1120 * e1 ^ 2 * th ^ 3
             - 420 * e1 ^ 4 * th ^ 3 - 336 * e2 ^ 2 * th ^ 3 - 1680 * e1 ^ 2 * e2 ^ 2 * th ^ 3 -
             630 * e1 ^ 4 * e2 ^ 2 * th ^ 3 + 56 * e1 ^ 2 * (2 + e1 ^ 2) * (2 + 3 * e2 ^ 2) * th
             * (7 * th ^ 2 - 4) * cos (2 * g1) - 294 * e1 ^ 4 * (2 + 3 * e2 ^ 2) * th * (th ^ 2
             - 1) * cos (4 * g1) - 147 * e1 ^ 4 * e2 ^ 2 * cos (4 * g1 - 2 * g2) + 441 * e1 ^ 4
             * e2 ^ 2 * th ^ 2 * cos (4 * g1 - 2 * g2) + 294 * e1 ^ 4 * e2 ^ 2 * th ^ 3 * cos (4
             * g1 - 2 * g2) + 140 * e1 ^ 2 * e2 ^ 2 * cos (2 * (g1 - g2)) + 70 * e1 ^ 4 * e2 ^ 2
             * cos (2 * (g1 - g2)) + 336 * e1 ^ 2 * e2 ^ 3 * th * cos (2 * (g1 - g2)) + 168 * e1
             ^ 4 * e2 ^ 2 * th * cos (2 * (g1 - g2)) - 588 * e1 ^ 2 * e2 ^ 2 * th ^ 2 * cos (2 *
             (g1 - g2)) - 294 * e1 ^ 4 * e2 ^ 2 * th ^ 2 * cos (2 * (g1 - g2)) - 784 * e1 ^ 2 *
             e2 ^ 2 * th ^ 3 * cos (2 * (g1 - g2)) - 392 * e1 ^ 4 * e2 ^ 2 * th ^ 3 * cos (2 *
             (g1 - g2)) - 128 * e2 ^ 2 * th * cos (2 * g2) - 640 * e1 ^ 2 * e2 ^ 2 * th * cos (2
             * g2) - 240 * e1 ^ 4 * e2 ^ 2 * th * cos (2 * g2) + 224 * e2 ^ 2 * th ^ 3 * cos (2
             * g2) + 1120 * e1 ^ 2 * e2 ^ 2 * th ^ 3 * cos (2 * g2) + 420 * e1 ^ 4 * e2 ^ 2 * th
             ^ 3 * cos (2 * g2) - 140 * e1 ^ 2 * e2 ^ 2 * cos (2 * (g1 + g2)) - 70 * e1 ^ 4 * e2
             ^ 2 * cos (2 * (g1 + g2)) + 336 * e1 ^ 2 * e2 ^ 2 * th * cos (2 * (g1 + g2)) + 168
             * e1 ^ 4 * e2 ^ 2 * th * cos (2 * (g1 + g2)) + 588 * e1 ^ 2 * e2 ^ 2 * th ^ 2 * cos
             (2 * (g1 + g2)) + 294 * e1 ^ 4 * e2 ^ 2 * th ^ 2 * cos (2 * (g1 + g2)) - 784 * e1 ^
             2 * e2 ^ 2 * th ^ 3 * cos (2 * (g1 + g2)) - 392 * e1 ^ 4 * e2 ^ 2 * th ^ 3 * cos (2
             * (g1 + g2)) + 147 * e1 ^ 4 * e2 ^ 2 * cos (2 * (2 * g1 + g2)) - 441 * e1 ^ 4 * e2
             ^ 2 * th ^ 2 * cos (2 * (2 * g1 + g2)) + 294 * e1 ^ 4 * e2 ^ 2 * th ^ 3 * cos (2 *
             (2 * g1 + g2))) + 1 / (e1 * sqrt ((1 - e2 ^ 2) ^ 7)) * 2 * (1 - e1 ^ 2) * (m1 + m2)
             * (m1 ^ 3 + m2 ^ 3) * m3 * (e1 * (4 + 3 * e1 ^ 2) * (2 + 3 * e2 ^ 2) * (3 - 30 * th
             ^ 2 + 35 * th ^ 4) - 28 * (e1 + e1 ^ 3) * (2 + 3 * e2 ^ 2) * (1 - 8 * th ^ 2 + 7 *
             th ^ 4) * cos (2 * g1) + 147 * e1 ^ 3 * (2 + 3 * e2 ^ 2) * (th ^ 2 - 1) ^ 2 * cos
             (4 * g1) - 10 * e1 * (4 + 3 * e1 ^ 2) * e2 ^ 2 * (1 - 8 * th ^ 2 + 7 * th ^ 4) *
             cos (2 * g2) + 28 * (e1 + e1 ^ 3) * e2 ^ 2 * ((1 + th) ^ 2 * (1 - 7 * th + 7 * th ^
             2) * cos (2 * (g1 - g2)) + (th - 1) ^ 2 * (1 + 7 * th + 7 * th ^ 2) * cos (2 * (g1
             + g2))) - 147 * e1 ^ 3 * e2 ^ 2 * (th ^ 2 - 1) * ((1 + th) ^ 2 * cos (4 * g1 - 2 *
             g2) + (th - 1) ^ 2 * cos (2 * (2 * g1 + g2)))))))
          else 0))"

definition de1dt :: "constants \<Rightarrow> 'h triple \<Rightarrow> vec6 \<Rightarrow> real" where
  "de1dt k s y =
     (case y of (a1, e1, g1, e2, g2, H) \<Rightarrow>
      let G = const_G k; c = const_c k;
          sing1 = sin g1; sing2 = sin g2; cosg1 = cos g1; cosg2 = cos g2;
          m1 = tr__m1 s; m2 = tr__m2 s; m3 = tr__m3 s; a2 = tr__a2 s;
          G1 = deriv_G1 k s y; G2 = deriv_G2 k s y;
          C2 = deriv_C2 k s y; C3 = deriv_C3 k s y;
          th = deriv_th k s y; cosphi = deriv_cosphi k s y;
          B = deriv_B y; A = deriv_A k s y
      in 0
       + (if tr_quadrupole s then
            ((30 * C2 * e1 * (1 - e1 ^ 2) / G1 * (1 - th ^ 2) * sin (2 * g1)))
          else 0)
       + (if tr_octupole s then
            ((-C3 * e2 * (1 - e1 ^ 2) / G1 * (35 * cosphi * (1 - th ^ 2) * e1 ^ 2 * sin (2 * g1)
             - 10 * th * (1 - e1 ^ 2) * (1 - th ^ 2) * cosg1 * sing2 - A * (sing1 * cosg2 - th *
             cosg1 * sing2))))
          else 0)
       + (if tr_gr s then
            ((-304 * G ^ 3 * m1 * m2 * (m1 + m2) * e1 / (15 * c ^ 4 * a1 ^ 4 * sqrt ((1 - e1 ^
             2) ^ 5)) * (1 + 121 / 304 * e1 ^ 2)))
          else 0)
       + (if tr_hexadecapole s then
            ((-(315 * a1 ^ 3 * e1 * sqrt (1 - e1 ^ 2) * sqrt (a1 * G * (m1 + m2)) * (m1 ^ 2 - m1
             * m2 + m2 ^ 2) * m3 * (2 * (2 + e1 ^ 2) * (2 + 3 * e2 ^ 2) * (1 - 8 * th ^ 2 + 7 *
             th ^ 4) * sin (2 * g1) - 21 * e1 ^ 2 * (2 + 3 * e2 ^ 2) * (th ^ 2 - 1) ^ 2 * sin (4
             * g1) + e2 ^ 2 * (21 * e1 ^ 2 * (th - 1) * (1 + th) ^ 3 * sin (4 * g1 - 2 * g2) - 2
             * (2 + e1 ^ 2) * (1 + th) ^ 2 * (1 - 7 * th + 7 * th ^ 2) * sin (2 * (g1 - g2)) -
             (th - 1) ^ 2 * (2 * (2 + e1 ^ 2) * (1 + 7 * th + 7 * th ^ 2) * sin (2 * (g1 + g2))
             - 21 * e1 ^ 2 * (th ^ 2 - 1) * sin (2 * (2 * g1 + g2)))))) / (2048 * a2 ^ 5 * sqrt
             ((1 - e2 ^ 2) ^ 7) * (m1 + m2) ^ 3)))
          else 0))"

definition dg2dt :: "constants \<Rightarrow> 'h triple \<Rightarrow> vec6 \<Rightarrow> real" where
  "dg2dt k s y =
     (case y of (a1, e1, g1, e2, g2, H) \<Rightarrow>
      let G = const_G k;
          sing1 = sin g1; sing2 = sin g2; cosg1 = cos g1; cosg2 = cos g2;
          m1 = tr__m1 s; m2 = tr__m2 s; m3 = tr__m3 s; a2 = tr__a2 s;
          G1 = deriv_G1 k s y; G2 = deriv_G2 k s y;
          C2 = deriv_C2 k s y; C3 = deriv_C3 k s y;
          th = deriv_th k s y; cosphi = deriv_cosphi k s y;
          B = deriv_B y; A = deriv_A k s y
      in 0
       + (if tr_quadrupole s then
            ((3 * C2 * (2 * th / G1 * (2 + e1 ^ 2 * (3 - 5 * cos (2 * g1))) + 1 / G2 * (4 + 6 *
             e1 ^ 2 + (5 * th ^ 2 - 3) * (2 + 3 * e1 ^ 2 - 5 * e1 ^ 2 * cos (2 * g1))))))
          else 0)
       + (if tr_octupole s then
            ((-C3 * e1 * sing1 * sing2 * ((4 * e2 ^ 2 + 1) / (e2 * G2) * 10 * th * (1 - th ^ 2)
             * (1 - e1 ^ 2) - e2 * (1 / G1 + th / G2) * (A + 10 * (3 * th ^ 2 - 1) * (1 - e1 ^
             2))) - C3 * e1 * cosphi * (5 * B * th * e2 * (1 / G1 + th / G2) + (4 * e2 ^ 2 + 1)
             / (e2 * G2) * A)))
          else 0)
       + (if tr_hexadecapole s then
            (((9 * a1 ^ 3 * (-1 / sqrt (1 - e1 ^ 2) * 10 * a2 * sqrt (a1 * G * (m1 + m2)) * (m1
             ^ 2 - m1 * m2 + m2 ^ 2) * (sqrt (1 - e2 ^ 2) * m2 ^ 2 * m3 * sqrt (a2 * G * (m1 +
             m2 + m3)) + m1 ^ 2 * (sqrt (1 - e2 ^ 2) * m3 * sqrt (a2 * G * (m1 + m2 + m3)) +
             sqrt (1 - e1 ^ 2) * m2 * sqrt (a1 * G * (m1 + m2)) * th) + m1 * m2 * (2 * sqrt (1 -
             e2 ^ 2) * m3 * sqrt (a2 * G * (m1 + m2 + m3)) + sqrt (1 - e1 ^ 2) * m2 * sqrt (a1 *
             G * (m1 + m2)) * th + sqrt (1 - e1 ^ 2) * sqrt (a1 * G * (m1 + m2)) * m3 * th)) *
             (96 * th + 480 * e1 ^ 2 * th + 180 * e1 ^ 4 * th + 144 * e2 ^ 2 * th + 720 * e1 ^ 2
             * e2 ^ 2 * th + 270 * e1 ^ 4 * e2 ^ 2 * th - 224 * th ^ 3 - 1120 * e1 ^ 2 * th ^ 3
             - 420 * e1 ^ 4 * th ^ 3 - 336 * e2 ^ 2 * th ^ 3 - 1680 * e1 ^ 2 * e2 ^ 2 * th ^ 3 -
             630 * e1 ^ 4 * e2 ^ 2 * th ^ 3 + 56 * e1 ^ 2 * (2 + e1 ^ 2) * (2 + 3 * e2 ^ 2) * th
             * (7 * th ^ 2 - 4) * cos (2 * g1) - 294 * e1 ^ 4 * (2 + 3 * e2 ^ 2) * th * (th ^ 2
             - 1) * cos (4 * g1) - 147 * e1 ^ 4 * e2 ^ 2 * cos (4 * g1 - 2 * g2) + 441 * e1 ^ 4
             * e2 ^ 2 * th ^ 2 * cos (4 * g1 - 2 * g2) + 294 * e1 ^ 4 * e2 ^ 2 * th ^ 3 * cos (4
             * g1 - 2 * g2) + 140 * e1 ^ 2 * e2 ^ 2 * cos (2 * (g1 - g2)) + 70 * e1 ^ 4 * e2 ^ 2
             * cos (2 * (g1 - g2)) + 336 * e1 ^ 2 * e2 ^ 2 * th * cos (2 * (g1 - g2)) + 168 * e1
             ^ 4 * e2 ^ 2 * th * cos (2 * (g1 - g2)) - 588 * e1 ^ 2 * e2 ^ 2 * th ^ 2 * cos (2 *
             (g1 - g2)) - 294 * e1 ^ 4 * e2 ^ 2 * th ^ 2 * cos (2 * (g1 - g2)) - 784 * e1 ^ 2 *
             e2 ^ 2 * th ^ 3 * cos (2 * (g1 - g2)) - 392 * e1 ^ 4 * e2 ^ 2 * th ^ 3 * cos (2 *
             (g1 - g2)) - 128 * e2 ^ 2 * th * cos (2 * g2) - 640 * e1 ^ 2 * e2 ^ 2 * th * cos (2
             * g2) - 240 * e1 ^ 4 * e2 ^ 2 * th * cos (2 * g2) + 224 * e2 ^ 2 * th ^ 3 * cos (2
             * g2) + 1120 * e1 ^ 2 * e2 ^ 2 * th ^ 3 * cos (2 * g2) + 420 * e1 ^ 4 * e2 ^ 2 * th
             ^ 3 * cos (2 * g2) - 140 * e1 ^ 2 * e2 ^ 2 * cos (2 * (g1 + g2)) - 70 * e1 ^ 4 * e2
             ^ 2 * cos (2 * (g1 + g2)) + 336 * e1 ^ 2 * e2 ^ 2 * th * cos (2 * (g1 + g2)) + 168
             * e1 ^ 4 * e2 ^ 2 * th * cos (2 * (g1 + g2)) + 588 * e1 ^ 2 * e2 ^ 2 * th ^ 2 * cos
             (2 * (g1 + g2)) + 294 * e1 ^ 4 * e2 ^ 2 * th ^ 2 * cos (2 * (g1 + g2)) - 784 * e1 ^
             2 * e2 ^ 2 * th ^ 3 * cos (2 * (g1 + g2)) - 392 * e1 ^ 4 * e2 ^ 2 * th ^ 3 * cos (2
             * (g1 + g2)) + 147 * e1 ^ 4 * e2 ^ 2 * cos (2 * (2 * g1 + g2)) - 441 * e1 ^ 4 * e2
             ^ 2 * th ^ 2 * cos (2 * (2 * g1 + g2)) + 294 * e1 ^ 4 * e2 ^ 2 * th ^ 3 * cos (2 *
             (2 * g1 + g2))) + a1 * a2 * G * m1 * m2 * (m1 ^ 3 + m2 ^ 3) * (m1 + m2 + m3) * (-6
             * (8 + 40 * e1 ^ 2 + 15 * e1 ^ 4) * (-1 + e2 ^ 2) * (3 - 30 * th ^ 2 + 35 * th ^ 4)
             + 7 * (8 + 40 * e1 ^ 2 + 15 * e1 ^ 4) * (2 + 3 * e2 ^ 2) * (3 - 30 * th ^ 2 + 35 *
             th ^ 4) + 840 * e1 ^ 2 * (2 + e1 ^ 2) * (-1 + e2 ^ 2) * (1 - 8 * th ^ 2 + 7 * th ^
             4) * cos (2 * g1) - 980 * e1 ^ 2 * (2 + e1 ^ 2) * (2 + 3 * e2 ^ 2) * (1 - 8 * th ^
             2 + 7 * th ^ 4) * cos (2 * g1) - 4410 * e1 ^ 4 * (-1 + e2 ^ 2) * (-1 + th ^ 2) ^ 2
             * cos (4 * g1) + 5145 * e1 ^ 4 * (2 + 3 * e2 ^ 2) * (-1 + th ^ 2) ^ 2 * cos (4 *
             g1) - 70 * (8 + 40 * e1 ^ 2 + 15 * e1 ^ 4) * e2 ^ 2 * (1 - 8 * th ^ 2 + 7 * th ^ 4)
             * cos (2 * g2) + 20 * (8 + 40 * e1 ^ 2 + 15 * e1 ^ 4) * (-1 + e2 ^ 2) * (1 - 8 * th
             ^ 2 + 7 * th ^ 4) * cos (2 * g2) + 980 * e1 ^ 2 * (2 + e1 ^ 2) * e2 ^ 2 * ((1 + th)
             ^ 2 * (1 - 7 * th + 7 * th ^ 2) * cos (2 * (g1 - g2)) + (-1 + th) ^ 2 * (1 + 7 * th
             + 7 * th ^ 2) * cos (2 * (g1 + g2))) - 280 * e1 ^ 2 * (2 + e1 ^ 2) * (-1 + e2 ^ 2)
             * ((1 + th) ^ 2 * (1 - 7 * th + 7 * th ^ 2) * cos (2 * (g1 - g2)) + (-1 + th) ^ 2 *
             (1 + 7 * th + 7 * th ^ 2) * cos (2 * (g1 + g2))) - 1470 * e1 ^ 4 * (1 - e2 ^ 2) *
             (-1 + th) * (1 + th) * ((1 + th) ^ 2 * cos (4 * g1 - 2 * g2) + (-1 + th) ^ 2 * cos
             (2 * (2 * g1 + g2))) - 5145 * e1 ^ 4 * e2 ^ 2 * (-1 + th ^ 2) * ((1 + th) ^ 2 * cos
             (4 * g1 - 2 * g2) + (-1 + th) ^ 2 * cos (2 * (2 * g1 + g2)))))) / (8192 * a2 ^ 6 *
             (-1 + e2 ^ 2) ^ 4 * (m1 + m2) ^ 5 * sqrt (a2 * G * (m1 + m2 + m3)))))
          else 0))"

definition de2dt :: "constants \<Rightarrow> 'h triple \<Rightarrow> vec6 \<Rightarrow> real" where
  "de2dt k s y =
     (case y of (a1, e1, g1, e2, g2, H) \<Rightarrow>
      let G = const_G k;
          sing1 = sin g1; sing2 = sin g2; cosg1 = cos g1; cosg2 = cos g2;
          m1 = tr__m1 s; m2 = tr__m2 s; m3 = tr__m3 s; a2 = tr__a2 s;
          G2 = deriv_G2 k s y; C3 = deriv_C3 k s y;
          th = deriv_th k s y; A = deriv_A k s y
      in 0
       + (if tr_octupole s then
            ((C3 * e1 * (1 - e2 ^ 2) / G2 * (10 * th * (1 - th ^ 2) * (1 - e1 ^ 2) * sing1 *
             cosg2 + A * (cosg1 * sing2 - th * sing1 * cosg2))))
          else 0)
       + (if tr_hexadecapole s then
            (((45 * a1 ^ 4 * e2 * m1 * m2 * (m1 ^ 2 - m1 * m2 + m2 ^ 2) * sqrt (a2 * G * (m1 +
             m2 + m3)) * (-147 * e1 ^ 4 * (-1 + th) * (1 + th) ^ 3 * sin (4 * g1 - 2 * g2) + 28
             * e1 ^ 2 * (2 + e1 ^ 2) * (1 + th) ^ 2 * (1 - 7 * th + 7 * th ^ 2) * sin (2 * (g1 -
             g2)) + (-1 + th) * (2 * (8 + 40 * e1 ^ 2 + 15 * e1 ^ 4) * (-1 - th + 7 * th ^ 2 + 7
             * th ^ 3) * sin (2 * g2) - 7 * e1 ^ 2 * (-1 + th) * (4 * (2 + e1 ^ 2) * (1 + 7 * th
             + 7 * th ^ 2) * sin (2 * (g1 + g2)) - 21 * e1 ^ 2 * (-1 + th ^ 2) * sin (2 * (2 *
             g1 + g2))))) / (4096 * a2 ^ 6 * (-1 + e2 ^ 2) ^ 3 * (m1 + m2) ^ 4))))
          else 0))"

definition dHdt :: "constants \<Rightarrow> 'h triple \<Rightarrow> vec6 \<Rightarrow> real" where
  "dHdt k s y =
     (case y of (a1, e1, g1, e2, g2, H) \<Rightarrow>
      let G = const_G k; c = const_c k; m1 = tr__m1 s; m2 = tr__m2 s;
          G1 = deriv_G1 k s y; G2 = deriv_G2 k s y; th = deriv_th k s y
      in 0 + (if tr_gr s then
            ((-32 * G ^ 3 * m1 ^ 2 * m2 ^ 2 / (5 * c ^ 5 * a1 ^ 3 * (1 - e1 ^ 2) ^ 2) * sqrt (G
             * (m1 + m2) / a1) * (1 + 7 / 8 * e1 ^ 2) * (G1 + G2 * th) / H))
          else 0))"

text \<open>The list \<^verbatim>\<open>der\<close> that \<^verbatim>\<open>_deriv\<close> returns, in the order of the source.\<close>

definition Triple_deriv :: "constants \<Rightarrow> 'h triple \<Rightarrow> real \<Rightarrow> vec6 \<Rightarrow> vec6" where
  "Triple_deriv k s t y =
     (da1dt k s y, de1dt k s y, dg1dt k s y, de2dt k s y, dg2dt k s y, dHdt k s y)"

subsection \<open>Construction of a \<^verbatim>\<open>Triple\<close>\<close>

record triple_args =
  arg_a1 :: real
  arg_a2 :: real
  arg_e1 :: real
  arg_e2 :: real
  arg_inc :: real
  arg_argperi1 :: real
  arg_argperi2 :: real
  arg_m1 :: real
  arg_m2 :: real
  arg_m3 :: real
  arg_r1 :: real
  arg_r2 :: real
  arg_epsoct :: "real option"
  arg_tstop :: real
  arg_cputstop :: real
  arg_outfreq :: int
  arg_outfilename :: "string option"
  arg_atol :: real
  arg_rtol :: real
  arg_quadrupole :: bool
  arg_octupole :: bool
  arg_hexadecapole :: bool
  arg_gr :: bool
  arg_integration_algo :: string

text \<open>The default values of the keyword arguments of \<^verbatim>\<open>Triple.__init__\<close>.\<close>

definition default_args :: triple_args where
  "default_args =
     \<lparr>arg_a1 = 1, arg_a2 = 20, arg_e1 = 1 / 10, arg_e2 = 3 / 10, arg_inc = 80,
      arg_argperi1 = 0, arg_argperi2 = 0, arg_m1 = 1, arg_m2 = 1, arg_m3 = 1,
      arg_r1 = 0, arg_r2 = 0, arg_epsoct = None, arg_tstop = 1000, arg_cputstop = 300,
      arg_outfreq = 1, arg_outfilename = None, arg_atol = 1 / 10 ^ 9, arg_rtol = 1 / 10 ^ 9,
      arg_quadrupole = True, arg_octupole = True, arg_hexadecapole = False, arg_gr = False,
      arg_integration_algo = ''vode''\<rparr>"

text \<open>
  \<^verbatim>\<open>Triple.__init__\<close>, in the order of the source: the fields given by the arguments
  and the unit conversions (\<open>init_fields\<close>), the coupling coefficients and angular momenta
  (\<open>init_derived\<close>), \<^verbatim>\<open>update\<close>, the output file (\<open>open_outfile\<close>) and the integration
  parameters and the solver (\<open>init_solver\<close>). When \<^verbatim>\<open>epsoct\<close> is given, the fields
  \<^verbatim>\<open>e2\<close>, \<^verbatim>\<open>a1\<close> and \<^verbatim>\<open>a2\<close> become \<^verbatim>\<open>None\<close>, and the unit conversion
  \<^verbatim>\<open>self.a1 * au\<close> that follows multiplies \<^verbatim>\<open>None\<close> by a float. Fields that the source
  assigns later than the place where the record is built (\<open>C2\<close>, \<open>C3\<close>, \<open>_G1\<close>, \<open>_G2\<close>,
  \<open>_H\<close>, \<open>cosphi\<close>, the output and solver fields) start at a placeholder that nothing
  reads before the assignment.
\<close>

definition init_fields ::
  "constants \<Rightarrow> 'h \<Rightarrow> triple_args \<Rightarrow> real \<Rightarrow> real \<Rightarrow> real \<Rightarrow> real \<Rightarrow> real \<Rightarrow> real \<Rightarrow>
   'h triple" where
  "init_fields k h0 args epsoct a1v a2v e2v ua1 ua2 =
     \<lparr>tr_a1 = a1v, tr_a2 = a2v, tr_e1 = arg_e1 args, tr_e2 = e2v,
      tr_inc = arg_inc args * pi / 180, tr_g1 = arg_argperi1 args * pi / 180,
      tr_g2 = arg_argperi2 args * pi / 180, tr_m1 = arg_m1 args, tr_m2 = arg_m2 args,
      tr_m3 = arg_m3 args, tr_r1 = arg_r1 args, tr_r2 = arg_r2 args,
      tr_tstop = arg_tstop args, tr_cputstop = arg_cputstop args,
      tr_outfreq = arg_outfreq args, tr_epsoct = epsoct,
      tr_t = 0, tr__t = 0, tr_th = cos (arg_inc args * pi / 180),
      tr__m1 = arg_m1 args * M_sun k, tr__m2 = arg_m2 args * M_sun k,
      tr__m3 = arg_m3 args * M_sun k, tr__a1 = ua1, tr__a2 = ua2,
      tr_quadrupole = arg_quadrupole args,
      tr_octupole = (if e2v = 0 then False else arg_octupole args),
      tr_hexadecapole = arg_hexadecapole args, tr_gr = arg_gr args,
      tr_C2 = 0, tr_C3 = 0, tr__G1 = 0, tr__G2 = 0, tr__H = 0,
      tr_cosphi = 0, tr_outfilename = None, tr_outfile = None,
      tr_nstep = 0, tr_atol = 0, tr_rtol = 0, tr_collision = False,
      tr_integration_algo = [], tr__y = (0, 0, 0, 0, 0, 0),
      tr_solver = \<lparr>sol_t = 0, sol_y = (0, 0, 0, 0, 0, 0), sol_hidden = h0\<rparr>,
      tr_tstart = 0, tr_stdout = [], tr_filebuf = []\<rparr>"

definition init_derived :: "constants \<Rightarrow> 'h triple \<Rightarrow> 'h triple" where
  "init_derived k s =
     (let s1 = calc_G2 k (calc_G1 k (calc_C k s))
      in s1\<lparr>tr__H := sqrt (2 * tr__G1 s1 * tr__G2 s1 * tr_th s1 +
                  tr__G1 s1 ^ 2 + tr__G2 s1 ^ 2)\<rparr>)"

definition open_outfile :: "(string \<Rightarrow> bool) \<Rightarrow> string option \<Rightarrow> error + fstatus option" where
  "open_outfile writable outfilename =
     (case outfilename of
        None \<Rightarrow> Inr None
      | Some f \<Rightarrow> if writable f then Inr (Some FOpen) else Inl IOError)"

definition init_solver :: "'h \<Rightarrow> triple_args \<Rightarrow> fstatus option \<Rightarrow> 'h triple \<Rightarrow> 'h triple" where
  "init_solver h0 args fo s =
     (let uy = (tr__a1 s, tr_e1 s, tr_g1 s, tr_e2 s, tr_g2 s, tr__H s)
      in s\<lparr>tr_outfilename := arg_outfilename args, tr_outfile := fo, tr_nstep := 0,
           tr_atol := arg_atol args, tr_rtol := arg_rtol args, tr_collision := False,
           tr_integration_algo := arg_integration_algo args, tr__y := uy,
           tr_solver := \<lparr>sol_t = tr__t s, sol_y = uy, sol_hidden = h0\<rparr>\<rparr>)"

definition Triple_init ::
  "constants \<Rightarrow> (string \<Rightarrow> bool) \<Rightarrow> 'h \<Rightarrow> triple_args \<Rightarrow> error + 'h triple" where
  "Triple_init k writable h0 args =
     (let (epsoct, e2, a1, a2) =
            (case arg_epsoct args of
               None \<Rightarrow> (arg_e2 args / (1 - arg_e2 args ^ 2) * arg_a1 args / arg_a2 args,
                         Some (arg_e2 args), Some (arg_a1 args), Some (arg_a2 args))
             | Some eps \<Rightarrow> (eps, None, None, None))
      in case py_mul a1 (au k) of Inl err \<Rightarrow> Inl err | Inr ua1 \<Rightarrow>
        (case py_mul a2 (au k) of Inl err \<Rightarrow> Inl err | Inr ua2 \<Rightarrow>
        (case (a1, a2, e2) of
           (Some a1v, Some a2v, Some e2v) \<Rightarrow>
             (case update k (init_derived k (init_fields k h0 args epsoct a1v a2v e2v ua1 ua2)) of
                Inl err \<Rightarrow> Inl err
              | Inr s \<Rightarrow>
                  (case open_outfile writable (arg_outfilename args) of
                     Inl err \<Rightarrow> Inl err
                   | Inr fo \<Rightarrow> Inr (init_solver h0 args fo s)))
         | _ \<Rightarrow> Inl TypeError)))"

subsection \<open>Output and stepping of a \<^verbatim>\<open>Triple\<close>\<close>

text \<open>
  The pattern \<^verbatim>\<open>if self.outfilename is None: print outstring else:
  self.outfile.write(outstring + '\n')\<close> shared by the printing routines. Writing to a closed
  file raises \<^verbatim>\<open>ValueError\<close>.
\<close>

definition tr_emit :: "line \<Rightarrow> 'h triple \<Rightarrow> error + 'h triple" where
  "tr_emit outstring s =
     (case tr_outfilename s of
        None \<Rightarrow> Inr (s\<lparr>tr_stdout := tr_stdout s @ [outstring]\<rparr>)
      | Some f \<Rightarrow>
          (case tr_outfile s of
             None \<Rightarrow> Inl AttributeError
           | Some FClosed \<Rightarrow> Inl ValueError
           | Some FOpen \<Rightarrow> Inr (s\<lparr>tr_filebuf := tr_filebuf s @ [outstring]\<rparr>)))"

definition ts_printout :: "'h triple \<Rightarrow> error + 'h triple" where
  "ts_printout s =
     tr_emit [tr_t s, tr_a1 s, tr_e1 s, tr_g1 s, tr_e2 s, tr_g2 s, tr_inc s] s"

text \<open>\<^verbatim>\<open>self.outfile.close()\<close>; closing a closed file is allowed.\<close>

definition tr_close :: "'h triple \<Rightarrow> error + 'h triple" where
  "tr_close s =
     (case tr_outfile s of
        None \<Rightarrow> Inl AttributeError
      | Some st \<Rightarrow> Inr (s\<lparr>tr_outfile := Some FClosed\<rparr>))"

text \<open>
  \<^verbatim>\<open>_step\<close>: one step of the solver, then the solver's time and state are read back into
  the object (\<open>readback\<close>; the angles are reduced modulo \<open>2\<pi>\<close>), then \<^verbatim>\<open>update\<close>.
\<close>

definition readback :: "(real \<Rightarrow> 'h solver \<Rightarrow> 'h solver) \<Rightarrow> 'h triple \<Rightarrow> 'h triple" where
  "readback adv s =
     (let sv = adv (tr_tstop s) (tr_solver s)
      in case sol_y sv of (a1, e1, g1, e2, g2, H) \<Rightarrow>
           s\<lparr>tr_solver := sv, tr_nstep := tr_nstep s + 1, tr__t := sol_t sv,
             tr_a1 := a1, tr_e1 := e1, tr_g1 := fmod g1 (2 * pi), tr_e2 := e2,
             tr_g2 := fmod g2 (2 * pi), tr__H := H\<rparr>)"

definition Triple_step ::
  "(real \<Rightarrow> 'h solver \<Rightarrow> 'h solver) \<Rightarrow> constants \<Rightarrow> 'h triple \<Rightarrow> error + 'h triple" where
  "Triple_step adv k s = update k (readback adv s)"

subsection \<open>The integration modes of \<^verbatim>\<open>Triple\<close>\<close>

fun integrate_loop ::
  "(real \<Rightarrow> 'h solver \<Rightarrow> 'h solver) \<Rightarrow> constants \<Rightarrow> (nat \<Rightarrow> real) \<Rightarrow> nat \<Rightarrow> nat \<Rightarrow>
   'h triple \<Rightarrow> (error + 'h triple) option" where
  "integrate_loop adv k clock 0 i s = None"
| "integrate_loop adv k clock (Suc fuel) i s =
     (if tr_t s < tr_tstop s \<and> clock (Suc i) - tr_tstart s < tr_cputstop s
      then (case Triple_step adv k s of
              Inl err \<Rightarrow> Some (Inl err)
            | Inr s1 \<Rightarrow>
                if tr_outfreq s1 = 0 then Some (Inl ZeroDivisionError)
                else (case (if tr_nstep s1 mod tr_outfreq s1 = 0 then ts_printout s1
                            else Inr s1) of
                        Inl err \<Rightarrow> Some (Inl err)
                      | Inr s2 \<Rightarrow>
                          if tr_a1 s2 * (1 - tr_e1 s2) < tr_r1 s2 + tr_r2 s2
                          then Some (Inr (s2\<lparr>tr_collision := True\<rparr>))
                          else integrate_loop adv k clock fuel (Suc i) s2))
      else Some (Inr s))"

definition Triple_integrate ::
  "(real \<Rightarrow> 'h solver \<Rightarrow> 'h solver) \<Rightarrow> constants \<Rightarrow> (nat \<Rightarrow> real) \<Rightarrow> nat \<Rightarrow>
   'h triple \<Rightarrow> (error + 'h triple) option" where
  "Triple_integrate adv k clock fuel s =
     (case ts_printout s of
        Inl err \<Rightarrow> Some (Inl err)
      | Inr s0 \<Rightarrow>
          (case integrate_loop adv k clock fuel 0 (s0\<lparr>tr_tstart := clock 0\<rparr>) of
             None \<Rightarrow> None
           | Some (Inl err) \<Rightarrow> Some (Inl err)
           | Some (Inr s1) \<Rightarrow>
               (case ts_printout s1 of
                  Inl err \<Rightarrow> Some (Inl err)
                | Inr s2 \<Rightarrow>
                    if tr_outfilename s2 \<noteq> None then Some (tr_close s2)
                    else Some (Inr s2))))"

text \<open>
  \<^verbatim>\<open>Triple.ecc_extrema\<close>: the loop state is the object and the locals \<open>t_prev\<close>,
  \<open>e_prev\<close>, \<open>e_prev2\<close>. The function ends with the loop.
\<close>

fun ecc_extrema_loop ::
  "(real \<Rightarrow> 'h solver \<Rightarrow> 'h solver) \<Rightarrow> constants \<Rightarrow> (nat \<Rightarrow> real) \<Rightarrow> nat \<Rightarrow> nat \<Rightarrow>
   real \<Rightarrow> real \<Rightarrow> real \<Rightarrow> 'h triple \<Rightarrow> (error + 'h triple) option" where
  "ecc_extrema_loop adv k clock 0 i t_prev e_prev e_prev2 s = None"
| "ecc_extrema_loop adv k clock (Suc fuel) i t_prev e_prev e_prev2 s =
     (if tr_t s < tr_tstop s \<and> clock (Suc i) - tr_tstart s < tr_cputstop s
      then (case Triple_step adv k s of
              Inl err \<Rightarrow> Some (Inl err)
            | Inr s1 \<Rightarrow>
                (case (if e_prev2 < e_prev \<and> e_prev > tr_e1 s1
                       then tr_emit [t_prev, e_prev] s1 else Inr s1) of
                   Inl err \<Rightarrow> Some (Inl err)
                 | Inr s2 \<Rightarrow>
                     ecc_extrema_loop adv k clock fuel (Suc i) (tr_t s2) (tr_e1 s2) e_prev s2))
      else Some (Inr s))"

definition Triple_ecc_extrema ::
  "(real \<Rightarrow> 'h solver \<Rightarrow> 'h solver) \<Rightarrow> constants \<Rightarrow> (nat \<Rightarrow> real) \<Rightarrow> nat \<Rightarrow>
   'h triple \<Rightarrow> (error + 'h triple) option" where
  "Triple_ecc_extrema adv k clock fuel s =
     ecc_extrema_loop adv k clock fuel 0 0 0 0 (s\<lparr>tr_tstart := clock 0\<rparr>)"

text \<open>
  \<^verbatim>\<open>Triple.printflips\<close>: the last statement of the loop body is \<^verbatim>\<open>e_prev = e\<close>, and
  \<^verbatim>\<open>e\<close> is not a local of the function; the lookup goes to the module (\<open>glob_e\<close>).
\<close>

fun printflips_loop ::
  "(real \<Rightarrow> 'h solver \<Rightarrow> 'h solver) \<Rightarrow> constants \<Rightarrow> nat \<Rightarrow>
   real \<Rightarrow> real \<Rightarrow> real \<Rightarrow> real \<Rightarrow> 'h triple \<Rightarrow> (error + 'h triple) option" where
  "printflips_loop adv k 0 t_prev e_prev e_prev2 sign_prev s = None"
| "printflips_loop adv k (Suc fuel) t_prev e_prev e_prev2 sign_prev s =
     (if tr_t s < tr_tstop s
      then (case Triple_step adv k s of
              Inl err \<Rightarrow> Some (Inl err)
            | Inr s1 \<Rightarrow>
                (case (if e_prev2 < e_prev \<and> e_prev > tr_e1 s1
                       then (case (if sgn (tr_th s1) \<noteq> sign_prev
                                   then tr_emit [t_prev, e_prev] s1 else Inr s1) of
                               Inl err \<Rightarrow> Inl err
                             | Inr s2 \<Rightarrow> Inr (s2, sgn (tr_th s2)))
                       else Inr (s1, sign_prev)) of
                   Inl err \<Rightarrow> Some (Inl err)
                 | Inr (s2, sign_prev') \<Rightarrow>
                     (case glob_e k of
                        None \<Rightarrow> Some (Inl NameError)
                      | Some e \<Rightarrow>
                          printflips_loop adv k fuel (tr_t s2) e e_prev sign_prev' s2)))
      else Some (tr_close s))"

definition Triple_printflips ::
  "(real \<Rightarrow> 'h solver \<Rightarrow> 'h solver) \<Rightarrow> constants \<Rightarrow> nat \<Rightarrow> 'h triple \<Rightarrow>
   (error + 'h triple) option" where
  "Triple_printflips adv k fuel s = printflips_loop adv k fuel 0 0 0 (sgn (tr_th s)) s"

section \<open>The class \<^verbatim>\<open>Triple_vector\<close>\<close>

subsection \<open>Vectors\<close>

definition vadd :: "vec3 \<Rightarrow> vec3 \<Rightarrow> vec3" where
  "vadd u v = (case u of (u0, u1, u2) \<Rightarrow> case v of (v0, v1, v2) \<Rightarrow>
     (u0 + v0, u1 + v1, u2 + v2))"

definition smul :: "real \<Rightarrow> vec3 \<Rightarrow> vec3" where
  "smul c v = (case v of (v0, v1, v2) \<Rightarrow> (c * v0, c * v1, c * v2))"

text \<open>\<^verbatim>\<open>np.cross\<close> and \<^verbatim>\<open>np.linalg.norm\<close> on vectors of length three.\<close>

definition cross3 :: "vec3 \<Rightarrow> vec3 \<Rightarrow> vec3" where
  "cross3 u v = (case u of (u0, u1, u2) \<Rightarrow> case v of (v0, v1, v2) \<Rightarrow>
     (u1 * v2 - u2 * v1, u2 * v0 - u0 * v2, u0 * v1 - u1 * v0))"

definition norm3 :: "vec3 \<Rightarrow> real" where
  "norm3 v = (case v of (v0, v1, v2) \<Rightarrow> sqrt (v0 ^ 2 + v1 ^ 2 + v2 ^ 2))"

definition first3 :: "vec6 \<Rightarrow> vec3" where
  "first3 y = (case y of (y0, y1, y2, y3, y4, y5) \<Rightarrow> (y0, y1, y2))"

definition last3 :: "vec6 \<Rightarrow> vec3" where
  "last3 y = (case y of (y0, y1, y2, y3, y4, y5) \<Rightarrow> (y3, y4, y5))"

definition concat3 :: "vec3 \<Rightarrow> vec3 \<Rightarrow> vec6" where
  "concat3 u v = (case u of (u0, u1, u2) \<Rightarrow> case v of (v0, v1, v2) \<Rightarrow>
     (u0, u1, u2, v0, v1, v2))"

subsection \<open>The root function of the initial eccentricity vector\<close>

text \<open>
  A quotient of two floats of \<^verbatim>\<open>numpy\<close>; with a zero divisor the result is not a number,
  which is \<open>None\<close> here.
\<close>

definition np_div :: "real \<Rightarrow> real \<Rightarrow> real option" where
  "np_div x y = (if y = 0 then None else Some (x / y))"

text \<open>
  \<^verbatim>\<open>_evec_root\<close> returns the three conditions; the third is
  \<^verbatim>\<open>x[0] * j[1] / crossnorm - x[1] * j[0] / crossnorm + cos(g1)\<close>.
\<close>

definition crossnorm :: "vec3 \<Rightarrow> real" where
  "crossnorm j = (case j of (j0, j1, j2) \<Rightarrow> sqrt (j0 ^ 2 + j1 ^ 2))"

definition evec_root :: "vec3 \<Rightarrow> vec3 \<Rightarrow> real \<Rightarrow> real \<times> real \<times> real option" where
  "evec_root x j g1 =
     (case x of (x0, x1, x2) \<Rightarrow> case j of (j0, j1, j2) \<Rightarrow>
      let cond1 = x0 * j0 + x1 * j1 + x2 * j2;
          cond2 = x0 ^ 2 + x1 ^ 2 + x2 ^ 2 - 1;
          cond3 = (case np_div (x0 * j1) (crossnorm j) of
                     None \<Rightarrow> None
                   | Some q0 \<Rightarrow>
                       (case np_div (x1 * j0) (crossnorm j) of
                          None \<Rightarrow> None
                        | Some q1 \<Rightarrow> Some (q0 - q1 + cos g1)))
      in (cond1, cond2, cond3))"

subsection \<open>The object\<close>

record 'h triple_vector =
  tv_a1 :: real
  tv_a2 :: real
  tv_e1 :: real
  tv_e2 :: real
  tv_inc :: real
  tv_Omega :: real
  tv_g1 :: real
  tv_m1 :: real
  tv_m2 :: real
  tv_m3 :: real
  tv__t :: real
  tv_quadrupole :: bool
  tv_octupole :: bool
  tv_th :: real
  tv_j :: real
  tv_epsoct :: real
  tv_Hhatquad :: real
  tv_jhatvec :: vec3
  tv_jvec :: vec3
  tv_ehatvec :: vec3
  tv_evec :: vec3
  tv_Phi0 :: real
  tv_phiq :: real
  tv_phioct :: real
  tv_tsec :: real
  tv_Th :: real
  tv_CKL :: real
  tv_t :: real
  tv_nstep :: int
  tv_tstop :: real
  tv_cputstop :: real
  tv_outfreq :: int
  tv_outfilename :: "string option"
  tv_integration_algo :: string
  tv_y :: vec6
  tv_e1_0 :: real
  tv_e2_0 :: real
  tv_inc_0 :: real
  tv_Omega_0 :: real
  tv_g1_0 :: real
  tv_j_0 :: real
  tv_jhatvec_0 :: vec3
  tv_jvec_0 :: vec3
  tv_ehatvec_0 :: vec3
  tv_evec_0 :: vec3
  tv_outfile :: "fstatus option"
  tv_atol :: real
  tv_rtol :: real
  tv_solver :: "'h solver"
  tv_tstart :: real
  tv_stdout :: "line list"
  tv_filebuf :: "line list"

definition calc_Th :: "'h triple_vector \<Rightarrow> 'h triple_vector" where
  "calc_Th s = s\<lparr>tv_Th := (1 - tv_e1 s ^ 2) * cos (tv_inc s) ^ 2\<rparr>"

definition calc_CKL :: "'h triple_vector \<Rightarrow> 'h triple_vector" where
  "calc_CKL s = s\<lparr>tv_CKL :=
     (tv_e1 s ^ 2 * (1 - 5 / 2 * sin (tv_inc s) ^ 2 * sin (tv_g1 s) ^ 2))\<rparr>"

definition tv_update :: "'h triple_vector \<Rightarrow> 'h triple_vector" where
  "tv_update s =
     (let s1 = calc_CKL (calc_Th s);
          s2 = s1\<lparr>tv_t := tv__t s1 * tv_tsec s1\<rparr>
      in s2\<lparr>tv_e1 := norm3 (tv_evec s2)\<rparr>)"

definition save_initial_params :: "'h triple_vector \<Rightarrow> 'h triple_vector" where
  "save_initial_params s =
     s\<lparr>tv_e1_0 := tv_e1 s, tv_e2_0 := tv_e2 s, tv_inc_0 := tv_inc s,
       tv_Omega_0 := tv_Omega s, tv_g1_0 := tv_g1 s, tv_j_0 := tv_j s, tv_nstep := 0,
       tv_jhatvec_0 := tv_jhatvec s, tv_jvec_0 := tv_jvec s,
       tv_ehatvec_0 := tv_ehatvec s, tv_evec_0 := tv_evec s\<rparr>"

subsection \<open>The equations of motion of \<^verbatim>\<open>Triple_vector\<close>\<close>

definition Triple_vector_deriv :: "real \<Rightarrow> vec6 \<Rightarrow> real \<Rightarrow> vec6" where
  "Triple_vector_deriv t y epsoct =
     (case y of (jx, jy, jz, ex, ey, ez) \<Rightarrow>
      let e_sq = ex ^ 2 + ey ^ 2 + ez ^ 2;
          grad_j_phi_q = (0, 0, 3 / 4 * jz);
          grad_j_phi_oct = smul (- 75 / 32) (ez * jz, 0, ex * jz + ez * jx);
          grad_e_phi_q = (3 / 2 * ex, 3 / 2 * ey, - 9 / 4 * ez);
          grad_e_phi_oct =
            (75 / 64 * (1 / 5 - 8 / 5 * e_sq + 7 * ez ^ 2 - jz ^ 2) - 15 / 4 * ex ^ 2,
             - 15 / 4 * ex * ey,
             75 / 64 * (54 / 5 * ex * ez - 2 * jx * jz));
          grad_j_phi = vadd grad_j_phi_q (smul epsoct grad_j_phi_oct);
          grad_e_phi = vadd grad_e_phi_q (smul epsoct grad_e_phi_oct);
          djdtau = vadd (cross3 (first3 y) grad_j_phi) (cross3 (last3 y) grad_e_phi);
          dedtau = vadd (cross3 (first3 y) grad_e_phi) (cross3 (last3 y) grad_j_phi)
      in concat3 djdtau dedtau)"

text \<open>
  The right-hand side as the solver calls it: the constructor registers \<^verbatim>\<open>self.epsoct\<close> as
  the extra argument (\<^verbatim>\<open>set_f_params\<close>). The flags \<^verbatim>\<open>quadrupole\<close> and \<^verbatim>\<open>octupole\<close> of
  the object are not read.
\<close>

definition tv_rhs :: "'h triple_vector \<Rightarrow> real \<Rightarrow> vec6 \<Rightarrow> vec6" where
  "tv_rhs s t y = Triple_vector_deriv t y (tv_epsoct s)"

subsection \<open>Construction of a \<^verbatim>\<open>Triple_vector\<close>\<close>

record vector_args =
  varg_a1 :: real
  varg_a2 :: real
  varg_e1 :: real
  varg_e2 :: real
  varg_inc :: real
  varg_longascnode :: real
  varg_argperi :: real
  varg_m1 :: real
  varg_m3 :: real
  varg_epsoct :: "real option"
  varg_tstop :: real
  varg_cputstop :: real
  varg_outfreq :: int
  varg_outfilename :: "string option"
  varg_atol :: real
  varg_rtol :: real
  varg_integration_algo :: string
  varg_quadrupole :: bool
  varg_octupole :: bool

definition default_vector_args :: vector_args where
  "default_vector_args =
     \<lparr>varg_a1 = 1, varg_a2 = 20, varg_e1 = 1 / 10, varg_e2 = 3 / 10, varg_inc = 80,
      varg_longascnode = 180, varg_argperi = 0, varg_m1 = 1, varg_m3 = 1,
      varg_epsoct = None, varg_tstop = 1000, varg_cputstop = 300, varg_outfreq = 1,
      varg_outfilename = None, varg_atol = 1 / 10 ^ 9, varg_rtol = 1 / 10 ^ 9,
      varg_integration_algo = ''vode'', varg_quadrupole = True, varg_octupole = True\<rparr>"

text \<open>
  The direction of the angular momentum that the constructor computes from the stored
  inclination and node (in radians).
\<close>

definition jhatvec_of :: "real \<Rightarrow> real \<Rightarrow> vec3" where
  "jhatvec_of inc Omega = (sin inc * sin Omega, - sin inc * cos Omega, cos inc)"

text \<open>
  \<^verbatim>\<open>Triple_vector.__init__\<close>. \<open>np_pi\<close> is the value of \<^verbatim>\<open>np.pi\<close>; \<open>find_root\<close>
  stands for \<^verbatim>\<open>scipy.optimize.root\<close> followed by \<^verbatim>\<open>.x\<close>: it receives the root function and the initial guess and returns a
  vector. When \<^verbatim>\<open>epsoct\<close> is given, \<^verbatim>\<open>a1\<close>, \<^verbatim>\<open>a2\<close> and \<^verbatim>\<open>e2\<close> become
  \<^verbatim>\<open>None\<close> and the computation of \<^verbatim>\<open>Phi0\<close> squares \<^verbatim>\<open>None\<close>. The fields up to
  \<^verbatim>\<open>tsec\<close> are \<open>tv_init_fields\<close>; the integration parameters,
  \<^verbatim>\<open>_save_initial_params\<close>, the output file and the solver are \<open>tv_init_solver\<close>.
\<close>

definition tv_init_fields ::
  "real \<Rightarrow> ((vec3 \<Rightarrow> real \<times> real \<times> real option) \<Rightarrow> vec3 \<Rightarrow> vec3) \<Rightarrow> 'h \<Rightarrow>
   vector_args \<Rightarrow> real \<Rightarrow> real \<Rightarrow> real \<Rightarrow> real \<Rightarrow> real \<Rightarrow> 'h triple_vector" where
  "tv_init_fields np_pi find_root h0 args epsoct a1v a2v e2v a1sq =
     (let e1 = varg_e1 args;
          inc = varg_inc args * np_pi / 180;
          Omega = varg_longascnode args * np_pi / 180;
          g1 = varg_argperi args * np_pi / 180;
          th = cos inc;
          j = sqrt (1 - e1 ^ 2);
          Hhatquad = ((2 + 3 * e1 ^ 2) * (1 - 3 * th ^ 2) - 15 * e1 ^ 2 * (1 - th ^ 2) *
                      cos (2 * g1));
          jhatvec = jhatvec_of inc Omega;
          jvec = smul j jhatvec;
          ehatvec = find_root (\<lambda>x. evec_root x jhatvec g1) (1 / 2, 1 / 2, 1 / 2);
          evec = smul e1 ehatvec;
          Phi0 = 4 * np_pi ^ 2 * varg_m3 args * a1sq / (a2v ^ 3 * (1 - e2v ^ 2) powr (3 / 2));
          phiq = 0 + (if varg_quadrupole args
                      then 3 / 4 * ((case jvec of (jx, jy, jz) \<Rightarrow> jz) ^ 2 / 2 + e1 ^ 2 -
                           5 / 2 * (case evec of (ex, ey, ez) \<Rightarrow> ez) ^ 2 - 1 / 6)
                      else 0);
          phioct = 0 + (if varg_octupole args
                        then (case jvec of (jx, jy, jz) \<Rightarrow> case evec of (ex, ey, ez) \<Rightarrow>
                              epsoct * 75 / 64 * (ex * (1 / 5 - 8 / 5 * e1 ^ 2 +
                              7 * ez ^ 2 - jz ^ 2) - 2 * ez * jx * jz))
                        else 0);
          tsec = 2 * np_pi * sqrt (varg_m1 args * a1v) / Phi0
      in \<lparr>tv_a1 = a1v, tv_a2 = a2v, tv_e1 = e1, tv_e2 = e2v, tv_inc = inc,
          tv_Omega = Omega, tv_g1 = g1, tv_m1 = varg_m1 args, tv_m2 = 0,
          tv_m3 = varg_m3 args, tv__t = 0, tv_quadrupole = varg_quadrupole args,
          tv_octupole = varg_octupole args, tv_th = th, tv_j = j,
          tv_epsoct = epsoct, tv_Hhatquad = Hhatquad, tv_jhatvec = jhatvec,
          tv_jvec = jvec, tv_ehatvec = ehatvec, tv_evec = evec, tv_Phi0 = Phi0,
          tv_phiq = phiq, tv_phioct = phioct, tv_tsec = tsec, tv_Th = 0,
          tv_CKL = 0, tv_t = 0, tv_nstep = 0, tv_tstop = 0, tv_cputstop = 0,
          tv_outfreq = 0, tv_outfilename = None, tv_integration_algo = [],
          tv_y = (0, 0, 0, 0, 0, 0), tv_e1_0 = 0, tv_e2_0 = 0, tv_inc_0 = 0,
          tv_Omega_0 = 0, tv_g1_0 = 0, tv_j_0 = 0, tv_jhatvec_0 = (0, 0, 0),
          tv_jvec_0 = (0, 0, 0), tv_ehatvec_0 = (0, 0, 0),
          tv_evec_0 = (0, 0, 0), tv_outfile = None, tv_atol = 0, tv_rtol = 0,
          tv_solver = \<lparr>sol_t = 0, sol_y = (0, 0, 0, 0, 0, 0), sol_hidden = h0\<rparr>,
          tv_tstart = 0, tv_stdout = [], tv_filebuf = []\<rparr>)"

definition tv_init_params :: "vector_args \<Rightarrow> 'h triple_vector \<Rightarrow> 'h triple_vector" where
  "tv_init_params args s =
     save_initial_params
       (s\<lparr>tv_nstep := 0, tv_tstop := varg_tstop args, tv_cputstop := varg_cputstop args,
          tv_outfreq := varg_outfreq args, tv_outfilename := varg_outfilename args,
          tv_integration_algo := varg_integration_algo args,
          tv_y := concat3 (tv_jvec s) (tv_evec s)\<rparr>)"

definition tv_init_solver ::
  "'h \<Rightarrow> vector_args \<Rightarrow> fstatus option \<Rightarrow> 'h triple_vector \<Rightarrow> 'h triple_vector" where
  "tv_init_solver h0 args fo s =
     s\<lparr>tv_outfile := fo, tv_atol := varg_atol args, tv_rtol := varg_rtol args,
       tv_solver := \<lparr>sol_t = tv__t s, sol_y = tv_y s, sol_hidden = h0\<rparr>\<rparr>"

definition Triple_vector_init ::
  "real \<Rightarrow> ((vec3 \<Rightarrow> real \<times> real \<times> real option) \<Rightarrow> vec3 \<Rightarrow> vec3) \<Rightarrow> (string \<Rightarrow> bool) \<Rightarrow>
   'h \<Rightarrow> vector_args \<Rightarrow> error + 'h triple_vector" where
  "Triple_vector_init np_pi find_root writable h0 args =
     (let (epsoct, e2, a1, a2) =
            (case varg_epsoct args of
               None \<Rightarrow> (varg_e2 args / (1 - varg_e2 args ^ 2) * (varg_a1 args / varg_a2 args),
                         Some (varg_e2 args), Some (varg_a1 args), Some (varg_a2 args))
             | Some eps \<Rightarrow> (eps, None, None, None))
      in case py_sqr a1 of Inl err \<Rightarrow> Inl err | Inr a1sq \<Rightarrow>
        (case (a1, a2, e2) of
           (Some a1v, Some a2v, Some e2v) \<Rightarrow>
             (let s = tv_init_params args
                        (tv_update
                           (tv_init_fields np_pi find_root h0 args epsoct a1v a2v e2v a1sq))
              in case open_outfile writable (tv_outfilename s) of
                   Inl err \<Rightarrow> Inl err
                 | Inr fo \<Rightarrow> Inr (tv_init_solver h0 args fo s))
         | _ \<Rightarrow> Inl TypeError))"

subsection \<open>Output and stepping of a \<^verbatim>\<open>Triple_vector\<close>\<close>

definition tv_emit :: "line \<Rightarrow> 'h triple_vector \<Rightarrow> error + 'h triple_vector" where
  "tv_emit outstring s =
     (case tv_outfilename s of
        None \<Rightarrow> Inr (s\<lparr>tv_stdout := tv_stdout s @ [outstring]\<rparr>)
      | Some f \<Rightarrow>
          (case tv_outfile s of
             None \<Rightarrow> Inl AttributeError
           | Some FClosed \<Rightarrow> Inl ValueError
           | Some FOpen \<Rightarrow> Inr (s\<lparr>tv_filebuf := tv_filebuf s @ [outstring]\<rparr>)))"

definition printout :: "'h triple_vector \<Rightarrow> error + 'h triple_vector" where
  "printout s =
     (case tv_jvec s of (jx, jy, jz) \<Rightarrow> case tv_evec s of (ex, ey, ez) \<Rightarrow>
      tv_emit [tv_t s, jx, jy, jz, ex, ey, ez] s)"

definition tv_close :: "'h triple_vector \<Rightarrow> error + 'h triple_vector" where
  "tv_close s =
     (case tv_outfile s of
        None \<Rightarrow> Inl AttributeError
      | Some st \<Rightarrow> Inr (s\<lparr>tv_outfile := Some FClosed\<rparr>))"

definition tv_readback ::
  "(real \<Rightarrow> 'h solver \<Rightarrow> 'h solver) \<Rightarrow> 'h triple_vector \<Rightarrow> 'h triple_vector" where
  "tv_readback adv s =
     (let sv = adv (tv_tstop s) (tv_solver s)
      in s\<lparr>tv_solver := sv, tv_nstep := tv_nstep s + 1, tv__t := sol_t sv,
           tv_jvec := first3 (sol_y sv), tv_evec := last3 (sol_y sv)\<rparr>)"

definition Triple_vector_step ::
  "(real \<Rightarrow> 'h solver \<Rightarrow> 'h solver) \<Rightarrow> 'h triple_vector \<Rightarrow> 'h triple_vector" where
  "Triple_vector_step adv s = tv_update (tv_readback adv s)"

subsection \<open>The integration modes of \<^verbatim>\<open>Triple_vector\<close>\<close>

fun tv_integrate_loop ::
  "(real \<Rightarrow> 'h solver \<Rightarrow> 'h solver) \<Rightarrow> (nat \<Rightarrow> real) \<Rightarrow> nat \<Rightarrow> nat \<Rightarrow>
   'h triple_vector \<Rightarrow> (error + 'h triple_vector) option" where
  "tv_integrate_loop adv clock 0 i s = None"
| "tv_integrate_loop adv clock (Suc fuel) i s =
     (if tv_t s < tv_tstop s \<and> clock (Suc i) - tv_tstart s < tv_cputstop s
      then (let s1 = Triple_vector_step adv s
            in if tv_outfreq s1 = 0 then Some (Inl ZeroDivisionError)
               else (case (if tv_nstep s1 mod tv_outfreq s1 = 0 then printout s1
                           else Inr s1) of
                       Inl err \<Rightarrow> Some (Inl err)
                     | Inr s2 \<Rightarrow> tv_integrate_loop adv clock fuel (Suc i) s2))
      else Some (Inr s))"

definition Triple_vector_integrate ::
  "(real \<Rightarrow> 'h solver \<Rightarrow> 'h solver) \<Rightarrow> (nat \<Rightarrow> real) \<Rightarrow> nat \<Rightarrow>
   'h triple_vector \<Rightarrow> (error + 'h triple_vector) option" where
  "Triple_vector_integrate adv clock fuel s =
     (case printout s of
        Inl err \<Rightarrow> Some (Inl err)
      | Inr s0 \<Rightarrow>
          (case tv_integrate_loop adv clock fuel 0 (s0\<lparr>tv_tstart := clock 0\<rparr>) of
             None \<Rightarrow> None
           | Some (Inl err) \<Rightarrow> Some (Inl err)
           | Some (Inr s1) \<Rightarrow>
               (case printout s1 of
                  Inl err \<Rightarrow> Some (Inl err)
                | Inr s2 \<Rightarrow>
                    if tv_outfilename s2 \<noteq> None then Some (tv_close s2)
                    else Some (Inr s2))))"

fun tv_ecc_extrema_loop ::
  "(real \<Rightarrow> 'h solver \<Rightarrow> 'h solver) \<Rightarrow> nat \<Rightarrow> real \<Rightarrow> real \<Rightarrow> real \<Rightarrow>
   'h triple_vector \<Rightarrow> (error + 'h triple_vector) option" where
  "tv_ecc_extrema_loop adv 0 t_prev e_prev e_prev2 s = None"
| "tv_ecc_extrema_loop adv (Suc fuel) t_prev e_prev e_prev2 s =
     (if tv_t s < tv_tstop s
      then (let s1 = Triple_vector_step adv s;
                e = norm3 (tv_evec s1)
            in case (if e_prev2 < e_prev \<and> e_prev > e
                     then tv_emit [t_prev, e_prev] s1 else Inr s1) of
                 Inl err \<Rightarrow> Some (Inl err)
               | Inr s2 \<Rightarrow> tv_ecc_extrema_loop adv fuel (tv_t s2) e e_prev s2)
      else Some (Inr s))"

definition Triple_vector_ecc_extrema ::
  "(real \<Rightarrow> 'h solver \<Rightarrow> 'h solver) \<Rightarrow> nat \<Rightarrow> 'h triple_vector \<Rightarrow>
   (error + 'h triple_vector) option" where
  "Triple_vector_ecc_extrema adv fuel s =
     (case tv_ecc_extrema_loop adv fuel 0 0 0 s of
        None \<Rightarrow> None
      | Some (Inl err) \<Rightarrow> Some (Inl err)
      | Some (Inr s1) \<Rightarrow>
          if tv_outfilename s1 \<noteq> None then Some (tv_close s1) else Some (Inr s1))"

text \<open>\<^verbatim>\<open>np.sign\<close> is \<open>sgn\<close>: \<open>-1\<close>, \<open>0\<close> or \<open>1\<close>.\<close>

definition jz_of :: "'h triple_vector \<Rightarrow> real" where
  "jz_of s = (case tv_jvec s of (jx, jy, jz) \<Rightarrow> jz)"

fun tv_printflips_loop ::
  "(real \<Rightarrow> 'h solver \<Rightarrow> 'h solver) \<Rightarrow> nat \<Rightarrow> real \<Rightarrow> real \<Rightarrow> real \<Rightarrow> real \<Rightarrow>
   'h triple_vector \<Rightarrow> (error + 'h triple_vector) option" where
  "tv_printflips_loop adv 0 t_prev e_prev e_prev2 sign_prev s = None"
| "tv_printflips_loop adv (Suc fuel) t_prev e_prev e_prev2 sign_prev s =
     (if tv_t s < tv_tstop s
      then (let s1 = Triple_vector_step adv s;
                e = norm3 (tv_evec s1)
            in case (if e_prev2 < e_prev \<and> e_prev > e
                     then (case (if sgn (jz_of s1) \<noteq> sign_prev
                                 then tv_emit [t_prev, e_prev] s1 else Inr s1) of
                             Inl err \<Rightarrow> Inl err
                           | Inr s2 \<Rightarrow> Inr (s2, sgn (jz_of s2)))
                     else Inr (s1, sign_prev)) of
                 Inl err \<Rightarrow> Some (Inl err)
               | Inr (s2, sign_prev') \<Rightarrow>
                   tv_printflips_loop adv fuel (tv_t s2) e e_prev sign_prev' s2)
      else Some (Inr s))"

definition Triple_vector_printflips ::
  "(real \<Rightarrow> 'h solver \<Rightarrow> 'h solver) \<Rightarrow> nat \<Rightarrow> 'h triple_vector \<Rightarrow>
   (error + 'h triple_vector) option" where
  "Triple_vector_printflips adv fuel s =
     (case tv_printflips_loop adv fuel 0 0 0 (sgn (jz_of s)) s of
        None \<Rightarrow> None
      | Some (Inl err) \<Rightarrow> Some (Inl err)
      | Some (Inr s1) \<Rightarrow> Some (tv_close s1))"

section \<open>Quantities and fixtures used by the statements\<close>

text \<open>
  The rate of change of \<open>j\<^sub>z\<^sup>2\<close> along the right-hand side that the solver of a
  \<^verbatim>\<open>Triple_vector\<close> integrates: by the chain rule, \<open>2 j\<^sub>z\<close> times the third component of
  the derivative. (\<open>j\<^sub>z\<^sup>2 = (1 - e\<^sub>1\<^sup>2) cos\<^sup>2 i\<close> is Kozai's integral.)
\<close>

definition djz_dtau :: "'h triple_vector \<Rightarrow> vec6 \<Rightarrow> real" where
  "djz_dtau s y = (case tv_rhs s 0 y of (djx, djy, djz, dex, dey, dez) \<Rightarrow> djz)"

definition dTheta_dtau :: "'h triple_vector \<Rightarrow> vec6 \<Rightarrow> real" where
  "dTheta_dtau s y = (case y of (jx, jy, jz, ex, ey, ez) \<Rightarrow> 2 * jz * djz_dtau s y)"

text \<open>
  A solver for concrete runs: its hidden state is a tape of the times and state vectors
  that the following steps produce; a step takes the next entry (and leaves the solver as
  it is once the tape is empty).
\<close>

type_synonym tape = "(real \<times> vec6) list"

definition replay :: "real \<Rightarrow> tape solver \<Rightarrow> tape solver" where
  "replay tstop sv =
     (case sol_hidden sv of
        [] \<Rightarrow> sv
      | (t, y) # rest \<Rightarrow> \<lparr>sol_t = t, sol_y = y, sol_hidden = rest\<rparr>)"

text \<open>Units in which all five constants are one, and no global \<^verbatim>\<open>e\<close>.\<close>

definition test_constants :: constants where
  "test_constants =
     \<lparr>const_G = 1, const_c = 1, M_sun = 1, au = 1, yr2s = 1, glob_e = None\<rparr>"

text \<open>
  Arguments for a \<^verbatim>\<open>Triple\<close> with unequal inner masses at an inclination of ninety
  degrees, to be integrated up to \<open>t = 4\<close>, and the object that the constructor builds from
  them (lemma \<open>Triple_init_test\<close> below).
\<close>

definition test_args :: triple_args where
  "test_args =
     default_args\<lparr>arg_a1 := 3, arg_a2 := 4, arg_e2 := 3 / 5, arg_inc := 90, arg_m1 := 2,
       arg_tstop := 4\<rparr>"

definition test_triple :: "tape \<Rightarrow> tape triple" where
  "test_triple tape =
     \<lparr>tr_a1 = 3, tr_a2 = 4, tr_e1 = 1 / 10, tr_e2 = 3 / 5, tr_inc = 90, tr_g1 = 0,
      tr_g2 = 0, tr_m1 = 2, tr_m2 = 1, tr_m3 = 1, tr_r1 = 0, tr_r2 = 0, tr_tstop = 4,
      tr_cputstop = 300, tr_outfreq = 1, tr_epsoct = 45 / 64, tr_t = 0, tr__t = 0,
      tr_th = 0, tr__m1 = 2, tr__m2 = 1, tr__m3 = 1, tr__a1 = 3, tr__a2 = 4,
      tr_quadrupole = True, tr_octupole = True, tr_hexadecapole = False, tr_gr = False,
      tr_C2 = 375 / 32768, tr_C3 = 140625 / 8388608, tr__G1 = 2 * sqrt (99 / 100),
      tr__G2 = 3 * sqrt (16 / 25), tr__H = sqrt (243 / 25), tr_cosphi = - 1,
      tr_outfilename = None, tr_outfile = None, tr_nstep = 0, tr_atol = 1 / 10 ^ 9,
      tr_rtol = 1 / 10 ^ 9, tr_collision = False, tr_integration_algo = ''vode'',
      tr__y = (3, 1 / 10, 0, 3 / 5, 0, sqrt (243 / 25)),
      tr_solver = \<lparr>sol_t = 0, sol_y = (3, 1 / 10, 0, 3 / 5, 0, sqrt (243 / 25)),
                    sol_hidden = tape\<rparr>,
      tr_tstart = 0, tr_stdout = [], tr_filebuf = []\<rparr>"

text \<open>
  The same object writing to a file: the constructor was given a file name and opened it.
\<close>

definition test_triple_file :: "tape \<Rightarrow> tape triple" where
  "test_triple_file tape =
     (test_triple tape)\<lparr>tr_outfilename := Some ''ecc.out'', tr_outfile := Some FOpen\<rparr>"

text \<open>
  Five steps whose inner eccentricities are \<open>0.1, 0.3, 0.5, 0.4, 0.2\<close> at the times
  \<open>0, 1, 2, 3, 4\<close>; the inner semi-major axis and the outer orbit stay as they are, and the
  total angular momentum is the one of an inclination of ninety degrees.
\<close>

definition extrema_tape :: tape where
  "extrema_tape =
     [(0, (3, 1 / 10, 0, 3 / 5, 0, sqrt (243 / 25))),
      (1, (3, 3 / 10, 0, 3 / 5, 0, sqrt (47 / 5))),
      (2, (3, 1 / 2, 0, 3 / 5, 0, sqrt (219 / 25))),
      (3, (3, 2 / 5, 0, 3 / 5, 0, sqrt (228 / 25))),
      (4, (3, 1 / 5, 0, 3 / 5, 0, sqrt (48 / 5)))]"

text \<open>
  The value of \<^verbatim>\<open>np.pi\<close> in double precision: the float nearest to \<open>\<pi>\<close>,
  \<open>884279719003555 / 2\<^sup>4\<^sup>8 = 3.14159265358979311599...\<close>, a little below \<open>\<pi>\<close>.
\<close>

definition pi_double :: real where
  "pi_double = 884279719003555 / 2 ^ 48"

text \<open>
  A root finder for concrete runs: it answers \<open>(-1, 0, 0)\<close>, which is the root of
  \<^verbatim>\<open>_evec_root\<close> for a node at 180 degrees, an argument of periapsis of zero and an
  inclination strictly between 0 and 180 degrees (lemma \<open>test_root_is_a_root\<close> below).
\<close>

definition test_root :: "(vec3 \<Rightarrow> real \<times> real \<times> real option) \<Rightarrow> vec3 \<Rightarrow> vec3" where
  "test_root f x0 = (- 1, 0, 0)"

text \<open>
  The object that \<^verbatim>\<open>Triple_vector.__init__\<close> returns for arguments without
  \<^verbatim>\<open>epsoct\<close>, given the status of the output file, with \<^verbatim>\<open>np.pi\<close> read as \<open>\<pi>\<close>
  (lemma \<open>Triple_vector_init_built\<close> below).
\<close>

definition built_vector :: "vector_args \<Rightarrow> fstatus option \<Rightarrow> tape \<Rightarrow> tape triple_vector" where
  "built_vector args fo tape =
     tv_init_solver tape args fo
       (tv_init_params args
          (tv_update
             (tv_init_fields pi test_root tape args
                (varg_e2 args / (1 - varg_e2 args ^ 2) * (varg_a1 args / varg_a2 args))
                (varg_a1 args) (varg_a2 args) (varg_e2 args) (varg_a1 args ^ 2))))"

text \<open>
  Arguments for a \<^verbatim>\<open>Triple_vector\<close> at an inclination of ninety degrees whose secular
  time scale \<^verbatim>\<open>tsec\<close> is one (that fixes the outer mass), to be integrated up to
  \<open>t = 4\<close>; the same with \<^verbatim>\<open>cputstop = -1\<close>.
\<close>

definition test_vector_args :: vector_args where
  "test_vector_args =
     default_vector_args\<lparr>varg_a2 := 5, varg_e2 := 3 / 5, varg_inc := 90,
       varg_m3 := 32 / pi, varg_tstop := 4\<rparr>"

definition test_vector :: "tape \<Rightarrow> tape triple_vector" where
  "test_vector tape = built_vector test_vector_args None tape"

definition test_vector_nolimit :: "tape \<Rightarrow> tape triple_vector" where
  "test_vector_nolimit tape =
     built_vector (test_vector_args\<lparr>varg_cputstop := - 1\<rparr>) None tape"

text \<open>
  The same five eccentricities for the vectorial model: the eccentricity vector along
  \<open>x\<close>, the angular momentum along \<open>z\<close>.
\<close>

definition extrema_tape_v :: tape where
  "extrema_tape_v =
     [(0, (0, 0, sqrt (99 / 100), 1 / 10, 0, 0)),
      (1, (0, 0, sqrt (91 / 100), 3 / 10, 0, 0)),
      (2, (0, 0, sqrt (3 / 4), 1 / 2, 0, 0)),
      (3, (0, 0, sqrt (21 / 25), 2 / 5, 0, 0)),
      (4, (0, 0, sqrt (24 / 25), 1 / 5, 0, 0))]"

text \<open>
  Eleven steps of the vectorial model with five eccentricity maxima (\<open>e = 3/5\<close> at the
  times \<open>2, 4, 6, 8, 10\<close>, between samples with \<open>e = 5/13\<close>). The sign of \<open>j\<^sub>z\<close> at the
  maxima, and at the steps after them where the loop detects them, is \<open>+, +, -, -, +\<close>.
\<close>

definition flips_tape :: tape where
  "flips_tape =
     [(1, (0, 0, 12 / 13, 5 / 13, 0, 0)),
      (2, (0, 0, 4 / 5, 3 / 5, 0, 0)),
      (3, (0, 0, 12 / 13, 5 / 13, 0, 0)),
      (4, (0, 0, 4 / 5, 3 / 5, 0, 0)),
      (5, (0, 0, 12 / 13, 5 / 13, 0, 0)),
      (6, (0, 0, - 4 / 5, 3 / 5, 0, 0)),
      (7, (0, 0, - 12 / 13, 5 / 13, 0, 0)),
      (8, (0, 0, - 4 / 5, 3 / 5, 0, 0)),
      (9, (0, 0, - 12 / 13, 5 / 13, 0, 0)),
      (10, (0, 0, 4 / 5, 3 / 5, 0, 0)),
      (11, (0, 0, 12 / 13, 5 / 13, 0, 0))]"

text \<open>
  The object that runs them: built at an inclination of \<open>inc_deg\<close> degrees, it writes to
  an open file and integrates up to \<open>t = 11\<close>. At 60 degrees it starts with \<open>j\<^sub>z > 0\<close>, at
  120 degrees with \<open>j\<^sub>z < 0\<close>.
\<close>

definition flip_args :: "real \<Rightarrow> vector_args" where
  "flip_args inc_deg =
     test_vector_args\<lparr>varg_inc := inc_deg, varg_tstop := 11,
       varg_outfilename := Some ''flips.out''\<rparr>"

definition flip_vector :: "real \<Rightarrow> tape triple_vector" where
  "flip_vector inc_deg = built_vector (flip_args inc_deg) (Some FOpen) flips_tape"

section \<open>Facts about the fixtures and the stepping functions\<close>

lemma powr_half_sq: "0 < (x::real) \<Longrightarrow> (x ^ 2) powr (p / 2) = x powr p"
proof -
  assume x: "0 < x"
  have "(x ^ 2) powr (p / 2) = (x powr 2) powr (p / 2)" using x by simp
  also have "\<dots> = x powr p" by (simp add: powr_powr)
  finally show ?thesis .
qed

lemma powr_16_25_3: "(16 / 25 :: real) powr (3 / 2) = 64 / 125"
proof -
  have "(16 / 25 :: real) powr (3 / 2) = ((4 / 5) ^ 2) powr (3 / 2)"
    by (simp add: power2_eq_square)
  also have "\<dots> = (4 / 5) powr 3" by (rule powr_half_sq) simp
  also have "\<dots> = (4 / 5) ^ 3" by simp
  also have "\<dots> = 64 / 125" by (simp add: power_divide)
  finally show ?thesis .
qed

lemma powr_16_25_5: "(16 / 25 :: real) powr (5 / 2) = 1024 / 3125"
proof -
  have "(16 / 25 :: real) powr (5 / 2) = ((4 / 5) ^ 2) powr (5 / 2)"
    by (simp add: power2_eq_square)
  also have "\<dots> = (4 / 5) powr 5" by (rule powr_half_sq) simp
  also have "\<dots> = (4 / 5) ^ 5" by simp
  also have "\<dots> = 1024 / 3125" by (simp add: power_divide)
  finally show ?thesis .
qed

text \<open>\<^verbatim>\<open>update\<close> with its local unfolded.\<close>

lemma update_eq:
  "update k s =
     (if tr_th (refresh k s) < - 1 \<or> 1 < tr_th (refresh k s) then Inl ValueError
      else Inr ((refresh k s)\<lparr>tr_inc := arccos (tr_th (refresh k s)) * 180 / pi,
                  tr_a1 := tr__a1 (refresh k s) / au k,
                  tr_t := tr__t (refresh k s) / yr2s k\<rparr>))"
  by (simp add: update_def Let_def)

text \<open>
  The constructor builds the test object from the test arguments: it is a state the code
  reaches.
\<close>

lemma Triple_init_test:
  "Triple_init test_constants (\<lambda>f. True) tape test_args = Inr (test_triple tape)"
  by (simp add: Triple_init_def init_fields_def init_derived_def init_solver_def
      open_outfile_def test_args_def default_args_def test_constants_def py_mul_def
      update_eq refresh_def calc_C_def calc_G1_def calc_G2_def calc_th_def calc_cosphi_def
      Let_def powr_16_25_3 powr_16_25_5 power_divide power_mult_distrib test_triple_def)

lemma Triple_init_test_file:
  "Triple_init test_constants (\<lambda>f. True) tape (test_args\<lparr>arg_outfilename := Some ''ecc.out''\<rparr>) =
   Inr (test_triple_file tape)"
  by (simp add: Triple_init_def init_fields_def init_derived_def init_solver_def
      open_outfile_def test_args_def default_args_def test_constants_def py_mul_def
      update_eq refresh_def calc_C_def calc_G1_def calc_G2_def calc_th_def calc_cosphi_def
      Let_def powr_16_25_3 powr_16_25_5 power_divide power_mult_distrib test_triple_def
      test_triple_file_def)

lemma test_triple_sel:
  "tr_tstop (test_triple tape) = 4"
  "tr_cputstop (test_triple tape) = 300"
  "tr_tstart (test_triple tape) = 0"
  "tr_outfreq (test_triple tape) = 1"
  "tr_outfilename (test_triple tape) = None"
  "tr_outfile (test_triple tape) = None"
  "tr_stdout (test_triple tape) = []"
  "tr_filebuf (test_triple tape) = []"
  "tr__m1 (test_triple tape) = 2"
  "tr__m2 (test_triple tape) = 1"
  "tr__m3 (test_triple tape) = 1"
  "tr__a1 (test_triple tape) = 3"
  "tr__a2 (test_triple tape) = 4"
  "tr_r1 (test_triple tape) = 0"
  "tr_r2 (test_triple tape) = 0"
  "tr_solver (test_triple tape) =
     \<lparr>sol_t = 0, sol_y = (3, 1 / 10, 0, 3 / 5, 0, sqrt (243 / 25)), sol_hidden = tape\<rparr>"
  "tr_nstep (test_triple tape) = 0"
  "tr_t (test_triple tape) = 0"
  "tr_a1 (test_triple tape) = 3"
  "tr_e1 (test_triple tape) = 1 / 10"
  "tr_e2 (test_triple tape) = 3 / 5"
  "tr_g1 (test_triple tape) = 0"
  "tr_g2 (test_triple tape) = 0"
  "tr_inc (test_triple tape) = 90"
  "tr_th (test_triple tape) = 0"
  "tr_quadrupole (test_triple tape)"
  "tr_octupole (test_triple tape)"
  "\<not> tr_hexadecapole (test_triple tape)"
  "\<not> tr_gr (test_triple tape)"
  by (simp_all add: test_triple_def)

lemma test_triple_file_sel:
  "tr_tstop (test_triple_file tape) = 4"
  "tr_cputstop (test_triple_file tape) = 300"
  "tr_tstart (test_triple_file tape) = 0"
  "tr_outfreq (test_triple_file tape) = 1"
  "tr_outfilename (test_triple_file tape) = Some ''ecc.out''"
  "tr_outfile (test_triple_file tape) = Some FOpen"
  "tr_stdout (test_triple_file tape) = []"
  "tr_filebuf (test_triple_file tape) = []"
  "tr__m1 (test_triple_file tape) = 2"
  "tr__m2 (test_triple_file tape) = 1"
  "tr__m3 (test_triple_file tape) = 1"
  "tr__a1 (test_triple_file tape) = 3"
  "tr__a2 (test_triple_file tape) = 4"
  "tr_r1 (test_triple_file tape) = 0"
  "tr_r2 (test_triple_file tape) = 0"
  "tr_solver (test_triple_file tape) =
     \<lparr>sol_t = 0, sol_y = (3, 1 / 10, 0, 3 / 5, 0, sqrt (243 / 25)), sol_hidden = tape\<rparr>"
  "tr_nstep (test_triple_file tape) = 0"
  "tr_t (test_triple_file tape) = 0"
  "tr_th (test_triple_file tape) = 0"
  by (simp_all add: test_triple_file_def test_triple_sel)

lemma readback_same:
  "tr_tstop (readback adv s) = tr_tstop s"
  "tr_cputstop (readback adv s) = tr_cputstop s"
  "tr_tstart (readback adv s) = tr_tstart s"
  "tr_outfreq (readback adv s) = tr_outfreq s"
  "tr_outfilename (readback adv s) = tr_outfilename s"
  "tr_outfile (readback adv s) = tr_outfile s"
  "tr_stdout (readback adv s) = tr_stdout s"
  "tr_filebuf (readback adv s) = tr_filebuf s"
  "tr__m1 (readback adv s) = tr__m1 s"
  "tr__m2 (readback adv s) = tr__m2 s"
  "tr__m3 (readback adv s) = tr__m3 s"
  "tr__a1 (readback adv s) = tr__a1 s"
  "tr__a2 (readback adv s) = tr__a2 s"
  "tr_r1 (readback adv s) = tr_r1 s"
  "tr_r2 (readback adv s) = tr_r2 s"
  "tr_quadrupole (readback adv s) = tr_quadrupole s"
  "tr_octupole (readback adv s) = tr_octupole s"
  "tr_collision (readback adv s) = tr_collision s"
  by (simp_all add: readback_def Let_def split: prod.splits)

lemma readback_new:
  "tr_solver (readback adv s) = adv (tr_tstop s) (tr_solver s)"
  "tr_nstep (readback adv s) = tr_nstep s + 1"
  "tr__t (readback adv s) = sol_t (adv (tr_tstop s) (tr_solver s))"
  "tr_e1 (readback adv s) = fst (snd (sol_y (adv (tr_tstop s) (tr_solver s))))"
  "tr_g1 (readback adv s) =
     fmod (fst (snd (snd (sol_y (adv (tr_tstop s) (tr_solver s)))))) (2 * pi)"
  "tr_e2 (readback adv s) = fst (snd (snd (snd (sol_y (adv (tr_tstop s) (tr_solver s))))))"
  "tr_g2 (readback adv s) =
     fmod (fst (snd (snd (snd (snd (sol_y (adv (tr_tstop s) (tr_solver s)))))))) (2 * pi)"
  "tr__H (readback adv s) =
     snd (snd (snd (snd (snd (sol_y (adv (tr_tstop s) (tr_solver s)))))))"
  by (simp_all add: readback_def Let_def split: prod.splits)

lemma refresh_same:
  "tr_tstop (refresh k s) = tr_tstop s"
  "tr_cputstop (refresh k s) = tr_cputstop s"
  "tr_tstart (refresh k s) = tr_tstart s"
  "tr_outfreq (refresh k s) = tr_outfreq s"
  "tr_outfilename (refresh k s) = tr_outfilename s"
  "tr_outfile (refresh k s) = tr_outfile s"
  "tr_stdout (refresh k s) = tr_stdout s"
  "tr_filebuf (refresh k s) = tr_filebuf s"
  "tr__m1 (refresh k s) = tr__m1 s"
  "tr__m2 (refresh k s) = tr__m2 s"
  "tr__m3 (refresh k s) = tr__m3 s"
  "tr__a1 (refresh k s) = tr__a1 s"
  "tr__a2 (refresh k s) = tr__a2 s"
  "tr_r1 (refresh k s) = tr_r1 s"
  "tr_r2 (refresh k s) = tr_r2 s"
  "tr_quadrupole (refresh k s) = tr_quadrupole s"
  "tr_octupole (refresh k s) = tr_octupole s"
  "tr_collision (refresh k s) = tr_collision s"
  "tr_solver (refresh k s) = tr_solver s"
  "tr_nstep (refresh k s) = tr_nstep s"
  "tr__t (refresh k s) = tr__t s"
  "tr_e1 (refresh k s) = tr_e1 s"
  "tr_g1 (refresh k s) = tr_g1 s"
  "tr_e2 (refresh k s) = tr_e2 s"
  "tr_g2 (refresh k s) = tr_g2 s"
  "tr__H (refresh k s) = tr__H s"
  by (simp_all add: refresh_def calc_C_def calc_cosphi_def calc_G1_def calc_G2_def
      calc_th_def Let_def)

lemma refresh_th:
  "tr_th (refresh k s) =
     (tr__H s ^ 2
      - (tr__m1 s * tr__m2 s *
         sqrt (const_G k * tr__a1 s * (1 - tr_e1 s ^ 2) / (tr__m1 s + tr__m2 s))) ^ 2
      - ((tr__m1 s + tr__m2 s) * tr__m3 s *
         sqrt (const_G k * tr__a2 s * (1 - tr_e2 s ^ 2) / (tr__m1 s + tr__m2 s + tr__m3 s))) ^ 2)
     / (2 * (tr__m1 s * tr__m2 s *
             sqrt (const_G k * tr__a1 s * (1 - tr_e1 s ^ 2) / (tr__m1 s + tr__m2 s)))
          * ((tr__m1 s + tr__m2 s) * tr__m3 s *
             sqrt (const_G k * tr__a2 s * (1 - tr_e2 s ^ 2) /
                   (tr__m1 s + tr__m2 s + tr__m3 s))))"
  by (simp add: refresh_def calc_C_def calc_cosphi_def calc_G1_def calc_G2_def calc_th_def
      Let_def)

lemma tr_emit_stdout:
  "tr_outfilename s = None \<Longrightarrow> tr_emit l s = Inr (s\<lparr>tr_stdout := tr_stdout s @ [l]\<rparr>)"
  by (simp add: tr_emit_def)

lemma tr_emit_file:
  "tr_outfilename s = Some f \<Longrightarrow> tr_outfile s = Some FOpen \<Longrightarrow>
   tr_emit l s = Inr (s\<lparr>tr_filebuf := tr_filebuf s @ [l]\<rparr>)"
  by (simp add: tr_emit_def)

text \<open>The same for the vectorial model.\<close>

lemma norm3_x: "norm3 (x, 0, 0) = \<bar>x\<bar>"
  by (simp add: norm3_def)

lemma tv_step_sel:
  "tv_solver (Triple_vector_step adv s) = adv (tv_tstop s) (tv_solver s)"
  "tv_nstep (Triple_vector_step adv s) = tv_nstep s + 1"
  "tv_t (Triple_vector_step adv s) = sol_t (adv (tv_tstop s) (tv_solver s)) * tv_tsec s"
  "tv_evec (Triple_vector_step adv s) = last3 (sol_y (adv (tv_tstop s) (tv_solver s)))"
  "tv_jvec (Triple_vector_step adv s) = first3 (sol_y (adv (tv_tstop s) (tv_solver s)))"
  "tv_tstop (Triple_vector_step adv s) = tv_tstop s"
  "tv_cputstop (Triple_vector_step adv s) = tv_cputstop s"
  "tv_tstart (Triple_vector_step adv s) = tv_tstart s"
  "tv_outfreq (Triple_vector_step adv s) = tv_outfreq s"
  "tv_tsec (Triple_vector_step adv s) = tv_tsec s"
  "tv_outfilename (Triple_vector_step adv s) = tv_outfilename s"
  "tv_outfile (Triple_vector_step adv s) = tv_outfile s"
  "tv_stdout (Triple_vector_step adv s) = tv_stdout s"
  "tv_filebuf (Triple_vector_step adv s) = tv_filebuf s"
  by (simp_all add: Triple_vector_step_def tv_update_def tv_readback_def calc_Th_def
      calc_CKL_def Let_def)

text \<open>The constructor returns \<open>built_vector\<close>.\<close>

lemma tv_init_params_outfilename:
  "tv_outfilename (tv_init_params args s) = varg_outfilename args"
  by (simp add: tv_init_params_def save_initial_params_def)

lemma Triple_vector_init_built:
  "varg_epsoct args = None \<Longrightarrow>
   Triple_vector_init pi test_root writable tape args =
     (case open_outfile writable (varg_outfilename args) of
        Inl err \<Rightarrow> Inl err
      | Inr fo \<Rightarrow> Inr (built_vector args fo tape))"
  by (simp add: Triple_vector_init_def py_sqr_def Let_def built_vector_def
      tv_init_params_outfilename split: sum.splits)

lemma Triple_vector_init_test:
  "Triple_vector_init pi test_root (\<lambda>f. True) tape test_vector_args = Inr (test_vector tape)"
  "Triple_vector_init pi test_root (\<lambda>f. True) tape (test_vector_args\<lparr>varg_cputstop := - 1\<rparr>) =
   Inr (test_vector_nolimit tape)"
  "Triple_vector_init pi test_root (\<lambda>f. True) flips_tape (flip_args inc_deg) =
   Inr (flip_vector inc_deg)"
  by (simp_all add: Triple_vector_init_built test_vector_def test_vector_nolimit_def
      flip_vector_def flip_args_def test_vector_args_def default_vector_args_def
      open_outfile_def)

lemma test_root_is_a_root:
  "0 < sin inc \<Longrightarrow> evec_root (test_root f x0) (jhatvec_of inc pi) 0 = (0, 0, Some 0)"
  by (simp add: evec_root_def test_root_def Let_def np_div_def crossnorm_def jhatvec_of_def)

lemma built_vector_sel:
  "sol_hidden (tv_solver (built_vector args fo tape)) = tape"
  "tv_nstep (built_vector args fo tape) = 0"
  "tv_t (built_vector args fo tape) = 0"
  "tv_tstop (built_vector args fo tape) = varg_tstop args"
  "tv_cputstop (built_vector args fo tape) = varg_cputstop args"
  "tv_outfreq (built_vector args fo tape) = varg_outfreq args"
  "tv_outfilename (built_vector args fo tape) = varg_outfilename args"
  "tv_outfile (built_vector args fo tape) = fo"
  "tv_stdout (built_vector args fo tape) = []"
  "tv_filebuf (built_vector args fo tape) = []"
  "tv_quadrupole (built_vector args fo tape) = varg_quadrupole args"
  "tv_octupole (built_vector args fo tape) = varg_octupole args"
  "tv_epsoct (built_vector args fo tape) =
     varg_e2 args / (1 - varg_e2 args ^ 2) * (varg_a1 args / varg_a2 args)"
  "tv_jvec (built_vector args fo tape) =
     smul (sqrt (1 - varg_e1 args ^ 2))
       (jhatvec_of (varg_inc args * pi / 180) (varg_longascnode args * pi / 180))"
  "tv_evec (built_vector args fo tape) = smul (varg_e1 args) (- 1, 0, 0)"
  by (simp_all add: built_vector_def tv_init_solver_def tv_init_params_def
      save_initial_params_def tv_update_def calc_Th_def calc_CKL_def tv_init_fields_def
      test_root_def Let_def)

lemma built_vector_tsec_eq:
  "tv_tsec (built_vector args fo tape) =
     2 * pi * sqrt (varg_m1 args * varg_a1 args) /
     (4 * pi ^ 2 * varg_m3 args * varg_a1 args ^ 2 /
      (varg_a2 args ^ 3 * (1 - varg_e2 args ^ 2) powr (3 / 2)))"
  by (simp add: built_vector_def tv_init_solver_def tv_init_params_def
      save_initial_params_def tv_update_def calc_Th_def calc_CKL_def tv_init_fields_def
      test_root_def Let_def)

lemma test_tsec:
  "2 * pi * sqrt (1 * 1) /
     (4 * pi ^ 2 * (32 / pi) * 1 ^ 2 / (5 ^ 3 * (1 - (3 / 5) ^ 2) powr (3 / 2))) = (1::real)"
proof -
  have d: "(5 ^ 3 * (1 - (3 / 5) ^ 2) powr (3 / 2) :: real) = 64"
    by (simp add: power_divide powr_16_25_3)
  have "2 * pi * sqrt (1 * 1) /
          (4 * pi ^ 2 * (32 / pi) * 1 ^ 2 / (5 ^ 3 * (1 - (3 / 5) ^ 2) powr (3 / 2))) =
        2 * pi * sqrt (1 * 1) / (4 * pi ^ 2 * (32 / pi) * 1 ^ 2 / 64)"
    by (simp only: d)
  also have "\<dots> = 1" by (simp add: power2_eq_square)
  finally show ?thesis .
qed

lemma built_vector_tsec:
  assumes "varg_m1 args = 1" "varg_a1 args = 1" "varg_m3 args = 32 / pi"
    "varg_a2 args = 5" "varg_e2 args = 3 / 5"
  shows "tv_tsec (built_vector args fo tape) = 1"
  by (simp only: built_vector_tsec_eq assms test_tsec)

lemma test_vector_sel:
  "sol_hidden (tv_solver (test_vector tape)) = tape"
  "tv_nstep (test_vector tape) = 0"
  "tv_t (test_vector tape) = 0"
  "tv_tstop (test_vector tape) = 4"
  "tv_cputstop (test_vector tape) = 300"
  "tv_outfreq (test_vector tape) = 1"
  "tv_tsec (test_vector tape) = 1"
  "tv_outfilename (test_vector tape) = None"
  "tv_stdout (test_vector tape) = []"
  "tv_filebuf (test_vector tape) = []"
  by (simp_all add: test_vector_def built_vector_sel built_vector_tsec test_vector_args_def
      default_vector_args_def)

lemma test_vector_nolimit_sel:
  "sol_hidden (tv_solver (test_vector_nolimit tape)) = tape"
  "tv_nstep (test_vector_nolimit tape) = 0"
  "tv_t (test_vector_nolimit tape) = 0"
  "tv_tstop (test_vector_nolimit tape) = 4"
  "tv_cputstop (test_vector_nolimit tape) = - 1"
  "tv_outfreq (test_vector_nolimit tape) = 1"
  "tv_tsec (test_vector_nolimit tape) = 1"
  "tv_outfilename (test_vector_nolimit tape) = None"
  "tv_stdout (test_vector_nolimit tape) = []"
  "tv_filebuf (test_vector_nolimit tape) = []"
  by (simp_all add: test_vector_nolimit_def built_vector_sel built_vector_tsec
      test_vector_args_def default_vector_args_def)

lemma flip_vector_sel:
  "sol_hidden (tv_solver (flip_vector inc_deg)) = flips_tape"
  "tv_t (flip_vector inc_deg) = 0"
  "tv_tstop (flip_vector inc_deg) = 11"
  "tv_tsec (flip_vector inc_deg) = 1"
  "tv_outfilename (flip_vector inc_deg) = Some ''flips.out''"
  "tv_outfile (flip_vector inc_deg) = Some FOpen"
  "tv_stdout (flip_vector inc_deg) = []"
  "tv_filebuf (flip_vector inc_deg) = []"
  by (simp_all add: flip_vector_def flip_args_def built_vector_sel built_vector_tsec
      test_vector_args_def default_vector_args_def)

text \<open>The sign of \<open>j\<^sub>z\<close> with which the flip objects start.\<close>

lemma flip_vector_jz:
  "jz_of (flip_vector inc_deg) = sqrt (99 / 100) * cos (inc_deg * pi / 180)"
  by (simp add: jz_of_def flip_vector_def flip_args_def built_vector_sel smul_def
      jhatvec_of_def test_vector_args_def default_vector_args_def power2_eq_square)

lemma flip_vector_sign:
  "sgn (jz_of (flip_vector 60)) = 1"
  "sgn (jz_of (flip_vector 120)) = - 1"
proof -
  have "jz_of (flip_vector 60) = sqrt (99 / 100) * (1 / 2)"
    using cos_60 by (simp add: flip_vector_jz)
  moreover have "0 < sqrt (99 / 100 :: real) * (1 / 2)" by simp
  ultimately have "0 < jz_of (flip_vector 60)" by (simp only:)
  then show "sgn (jz_of (flip_vector 60)) = 1" by simp
  have "jz_of (flip_vector 120) = sqrt (99 / 100) * (- 1 / 2)"
    using cos_120 by (simp add: flip_vector_jz)
  moreover have "sqrt (99 / 100 :: real) * (- 1 / 2) < 0" by simp
  ultimately have "jz_of (flip_vector 120) < 0" by (simp only:)
  then show "sgn (jz_of (flip_vector 120)) = - 1" by simp
qed

text \<open>A step of the tape solver when the tape is not empty.\<close>

lemma replay_Cons:
  "sol_hidden sv = (t, y) # rest \<Longrightarrow>
   replay tstop sv = \<lparr>sol_t = t, sol_y = y, sol_hidden = rest\<rparr>"
  by (simp add: replay_def)

lemma tv_emit_stdout:
  "tv_outfilename s = None \<Longrightarrow> tv_emit l s = Inr (s\<lparr>tv_stdout := tv_stdout s @ [l]\<rparr>)"
  by (simp add: tv_emit_def)

lemma tv_emit_file:
  "tv_outfilename s = Some f \<Longrightarrow> tv_outfile s = Some FOpen \<Longrightarrow>
   tv_emit l s = Inr (s\<lparr>tv_filebuf := tv_filebuf s @ [l]\<rparr>)"
  by (simp add: tv_emit_def)

section \<open>The equations of motion\<close>

subsection \<open>Which terms move which element\<close>

text \<open>
  C7. When the flag \<^verbatim>\<open>gr\<close> of the object is off, the first component of the list that
  \<^verbatim>\<open>Triple._deriv\<close> returns, the rate of the inner semi-major axis, is zero, whatever the
  state and the flags \<^verbatim>\<open>quadrupole\<close>, \<^verbatim>\<open>octupole\<close> and \<^verbatim>\<open>hexadecapole\<close> are.
\<close>

theorem da1dt_zero_without_gr:
  "\<not> tr_gr s \<Longrightarrow> fst (Triple_deriv k s t y) = 0"
  by (simp add: Triple_deriv_def da1dt_def split: prod.splits)

theorem da1dt_zero_without_gr_witness:
  "\<not> tr_gr (test_triple []) \<and>
   fst (Triple_deriv test_constants (test_triple []) 0 (3, 1 / 10, 0, 3 / 5, 0, 3)) = 0"
  using da1dt_zero_without_gr [where s = "test_triple []" and k = test_constants and t = 0
      and y = "(3, 1 / 10, 0, 3 / 5, 0, 3)"] test_triple_sel(29) [of "[]"]
  by simp

subsection \<open>Conservation laws of the quadrupole order\<close>

text \<open>The rate of the total angular momentum is zero when \<^verbatim>\<open>gr\<close> is off.\<close>

lemma dHdt_zero_without_gr: "\<not> tr_gr s \<Longrightarrow> dHdt k s y = 0"
  by (simp add: dHdt_def split: prod.splits)

text \<open>The third component of the vectorial right-hand side: only octupole terms.\<close>

lemma djz_dtau_eq:
  "djz_dtau s (jx, jy, jz, ex, ey, ez) =
     tv_epsoct s * (75 / 32 * jy * ez * jz -
       ey * (75 / 64 * (1 / 5 - 8 / 5 * (ex ^ 2 + ey ^ 2 + ez ^ 2) + 7 * ez ^ 2 - jz ^ 2)))"
  by (simp add: djz_dtau_def tv_rhs_def Triple_vector_deriv_def Let_def vadd_def smul_def
      cross3_def first3_def last3_def concat3_def field_simps power2_eq_square)

text \<open>With \<open>epsoct = 0\<close> the vectorial right-hand side conserves \<open>j\<^sub>z\<close>.\<close>

lemma dTheta_zero_without_epsoct: "tv_epsoct s = 0 \<Longrightarrow> dTheta_dtau s y = 0"
  by (cases y) (simp add: dTheta_dtau_def djz_dtau_eq)

text \<open>
  What the constructor stores when \<^verbatim>\<open>epsoct\<close> is not given and no output file is asked
  for: it succeeds, \<^verbatim>\<open>self.epsoct\<close> is computed from \<^verbatim>\<open>e2\<close>, \<^verbatim>\<open>a1\<close> and \<^verbatim>\<open>a2\<close>
  whatever the flag \<^verbatim>\<open>octupole\<close> says, and the flags are stored as given.
\<close>

lemma Triple_vector_init_epsoct:
  assumes "varg_epsoct args = None" "varg_outfilename args = None"
  shows "map_sum id (\<lambda>s. (tv_quadrupole s, tv_octupole s, tv_epsoct s))
           (Triple_vector_init np_pi find_root writable h0 args) =
         Inr (varg_quadrupole args, varg_octupole args,
              varg_e2 args / (1 - varg_e2 args ^ 2) * (varg_a1 args / varg_a2 args))"
  using assms
  by (simp add: Triple_vector_init_def py_sqr_def Let_def open_outfile_def tv_init_solver_def
      tv_init_params_def save_initial_params_def tv_update_def calc_Th_def calc_CKL_def
      tv_init_fields_def)

text \<open>
  C6 (the code departs from the claim). The claim: with only the quadrupole term enabled
  and GR disabled, the derivative of \<open>H\<close> in the massive model is zero and the derivative
  of Kozai's integral \<open>j\<^sub>z\<^sup>2\<close> along the test-particle model's right-hand side is zero.
  The first half holds (\<open>dHdt_zero_without_gr\<close>). The second does not: the right-hand
  side of \<^verbatim>\<open>Triple_vector\<close> never reads the flag \<^verbatim>\<open>octupole\<close>. A \<^verbatim>\<open>Triple_vector\<close>
  built with the default arguments and \<^verbatim>\<open>octupole=False\<close> has the quadrupole flag on, the
  octupole flag off and \<open>epsoct = 3/182\<close>, and at the state \<open>j = (0, 12/25, 16/25)\<close>,
  \<open>e = (0, 12/25, -9/25)\<close> (orthogonal, \<open>j\<^sup>2 + e\<^sup>2 = 1\<close>) the rate of \<open>j\<^sub>z\<^sup>2\<close> is
  \<open>-108/15625\<close>.
\<close>

theorem kozai_integral_moves_with_octupole_flag_off:
  "map_sum id
     (\<lambda>s. (tv_quadrupole s, tv_octupole s, tv_epsoct s,
           dTheta_dtau s (0, 12 / 25, 16 / 25, 0, 12 / 25, - 9 / 25)))
     (Triple_vector_init np_pi find_root writable h0
        (default_vector_args\<lparr>varg_octupole := False\<rparr>)) =
   Inr (True, False, 3 / 182, - 108 / 15625)"
proof -
  let ?args = "default_vector_args\<lparr>varg_octupole := False\<rparr>"
  have a: "varg_epsoct ?args = None" "varg_outfilename ?args = None"
    by (simp_all add: default_vector_args_def)
  obtain s where s: "Triple_vector_init np_pi find_root writable h0 ?args = Inr s"
    using Triple_vector_init_epsoct [OF a, of np_pi find_root writable h0]
    by (cases "Triple_vector_init np_pi find_root writable h0 ?args") simp_all
  have f: "tv_quadrupole s" "\<not> tv_octupole s" "tv_epsoct s = 3 / 182"
    using Triple_vector_init_epsoct [OF a, of np_pi find_root writable h0] s
    by (simp_all add: default_vector_args_def power2_eq_square)
  have "dTheta_dtau s (0, 12 / 25, 16 / 25, 0, 12 / 25, - 9 / 25) = - 108 / 15625"
    by (simp add: dTheta_dtau_def djz_dtau_eq f power2_eq_square)
  with s f show ?thesis by simp
qed

subsection \<open>The angle between the periapsis directions\<close>

text \<open>
  The local \<^verbatim>\<open>cosphi\<close> of \<^verbatim>\<open>Triple._deriv\<close> against the formula of the claim: they
  differ by \<open>2 cos g1 cos g2\<close>.
\<close>

lemma deriv_cosphi_eq:
  "deriv_cosphi k s (a1, e1, g1, e2, g2, H) =
     (- cos g1 * cos g2 - deriv_th k s (a1, e1, g1, e2, g2, H) * sin g1 * sin g2) +
     2 * cos g1 * cos g2"
  by (simp add: deriv_cosphi_def Let_def)

text \<open>
  C1 (the code departs from the claim). The claim: the \<open>cosphi\<close> used by the octupole
  terms of \<^verbatim>\<open>Triple._deriv\<close> is \<open>- cos g1 cos g2 - th sin g1 sin g2\<close>. The method
  \<^verbatim>\<open>calc_cosphi\<close> computes that; \<^verbatim>\<open>_deriv\<close> computes its own local with the first
  sign reversed and never reads \<^verbatim>\<open>self.cosphi\<close>. At the initial state of the test object
  (\<open>g1 = g2 = 0\<close>) the local is \<open>1\<close>, the claimed value and the value of \<^verbatim>\<open>calc_cosphi\<close>
  are \<open>-1\<close>.
\<close>

theorem deriv_cosphi_differs_from_calc_cosphi:
  "deriv_cosphi test_constants (test_triple tape) (3, 1 / 10, 0, 3 / 5, 0, sqrt (243 / 25)) = 1 \<and>
   - cos 0 * cos 0
     - deriv_th test_constants (test_triple tape) (3, 1 / 10, 0, 3 / 5, 0, sqrt (243 / 25)) *
       sin 0 * sin 0 = (- 1 :: real) \<and>
   tr_cosphi (calc_cosphi (test_triple tape)) = - 1"
  by (simp add: deriv_cosphi_def calc_cosphi_def test_triple_sel)

subsection \<open>The coupling coefficients and angular momenta\<close>

lemma neg_factor: "(A::real) * (y - x) / D * R = - (A * (x - y) / D * R)"
proof -
  have "A * (y - x) = - (A * (x - y))" by (simp add: algebra_simps)
  then show ?thesis by simp
qed

text \<open>
  \<open>C2\<close>, \<open>G1\<close> and \<open>G2\<close> of \<^verbatim>\<open>_deriv\<close> are what \<^verbatim>\<open>calc_C\<close>, \<^verbatim>\<open>calc_G1\<close> and
  \<^verbatim>\<open>calc_G2\<close> compute on an object that holds the same \<open>a1\<close>, \<open>e1\<close> and \<open>e2\<close>.
\<close>

lemma deriv_C2_is_calc_C:
  "tr_quadrupole s \<Longrightarrow> tr__a1 s = a1 \<Longrightarrow> tr_e2 s = e2 \<Longrightarrow>
   deriv_C2 k s (a1, e1, g1, e2, g2, H) = tr_C2 (calc_C k s)"
  by (simp add: deriv_C2_def calc_C_def Let_def)

lemma deriv_G1_is_calc_G1:
  "tr__a1 s = a1 \<Longrightarrow> tr_e1 s = e1 \<Longrightarrow>
   deriv_G1 k s (a1, e1, g1, e2, g2, H) = tr__G1 (calc_G1 k s)"
  by (simp add: deriv_G1_def calc_G1_def Let_def)

lemma deriv_G2_is_calc_G2:
  "tr_e2 s = e2 \<Longrightarrow> deriv_G2 k s (a1, e1, g1, e2, g2, H) = tr__G2 (calc_G2 k s)"
  by (simp add: deriv_G2_def calc_G2_def Let_def)

text \<open>\<open>C3\<close> of \<^verbatim>\<open>_deriv\<close> is the negative of the \<open>C3\<close> of \<^verbatim>\<open>calc_C\<close>.\<close>

lemma deriv_C3_is_minus_calc_C:
  assumes "tr_octupole s" "tr__a1 s = a1" "tr_e2 s = e2"
  shows "deriv_C3 k s (a1, e1, g1, e2, g2, H) = - tr_C3 (calc_C k s)"
proof -
  have "deriv_C3 k s (a1, e1, g1, e2, g2, H) =
        15 * const_G k * tr__m1 s * tr__m2 s * tr__m3 s * (tr__m2 s - tr__m1 s) /
        (64 * (tr__m1 s + tr__m2 s) ^ 2 * tr__a2 s * (1 - e2 ^ 2) powr (5 / 2)) *
        (a1 / tr__a2 s) ^ 3"
    by (simp add: deriv_C3_def Let_def)
  also have "\<dots> =
        - (15 * const_G k * tr__m1 s * tr__m2 s * tr__m3 s * (tr__m1 s - tr__m2 s) /
        (64 * (tr__m1 s + tr__m2 s) ^ 2 * tr__a2 s * (1 - e2 ^ 2) powr (5 / 2)) *
        (a1 / tr__a2 s) ^ 3)"
    by (rule neg_factor)
  also have "\<dots> = - tr_C3 (calc_C k s)"
    using assms by (simp add: calc_C_def Let_def)
  finally show ?thesis .
qed

lemma calc_C_test:
  "tr_C2 (calc_C test_constants (test_triple tape)) = 375 / 32768"
  "tr_C3 (calc_C test_constants (test_triple tape)) = 140625 / 8388608"
  by (simp_all add: calc_C_def Let_def test_triple_sel test_constants_def powr_16_25_3
      powr_16_25_5 power_divide)

text \<open>
  C2 (the code departs from the claim). The claim: with the quadrupole and octupole flags
  on, the \<open>C2\<close>, \<open>C3\<close>, \<open>G1\<close> and \<open>G2\<close> that \<^verbatim>\<open>_deriv\<close> recomputes are the values of
  \<^verbatim>\<open>calc_C\<close>, \<^verbatim>\<open>calc_G1\<close> and \<^verbatim>\<open>calc_G2\<close> for the same \<open>a1\<close>, \<open>e1\<close>, \<open>e2\<close>. That holds
  for \<open>C2\<close>, \<open>G1\<close> and \<open>G2\<close>; for \<open>C3\<close> the mass factor is \<open>m2 - m1\<close> in \<^verbatim>\<open>_deriv\<close> and
  \<open>m1 - m2\<close> in \<^verbatim>\<open>calc_C\<close>. On the test object (masses 2, 1, 1; both flags on) and its
  initial state, \<^verbatim>\<open>calc_C\<close> gives \<open>C3 = 140625/8388608\<close> and \<^verbatim>\<open>_deriv\<close> the negative
  of it.
\<close>

theorem deriv_C3_differs_from_calc_C:
  "tr_quadrupole (test_triple tape) \<and> tr_octupole (test_triple tape) \<and>
   tr_C3 (calc_C test_constants (test_triple tape)) = 140625 / 8388608 \<and>
   deriv_C3 test_constants (test_triple tape) (3, 1 / 10, 0, 3 / 5, 0, sqrt (243 / 25)) =
     - (140625 / 8388608) \<and>
   tr_C2 (calc_C test_constants (test_triple tape)) = 375 / 32768 \<and>
   deriv_C2 test_constants (test_triple tape) (3, 1 / 10, 0, 3 / 5, 0, sqrt (243 / 25)) =
     375 / 32768"
  using deriv_C3_is_minus_calc_C [of "test_triple tape" 3 "3 / 5" test_constants]
    deriv_C2_is_calc_C [of "test_triple tape" 3 "3 / 5" test_constants]
  by (simp add: calc_C_test test_triple_sel)

section \<open>Construction\<close>

subsection \<open>The parameter \<^verbatim>\<open>epsoct\<close>\<close>

lemma Triple_init_epsoct_raises:
  "arg_epsoct args = Some eps \<Longrightarrow> Triple_init k writable h0 args = Inl TypeError"
  by (simp add: Triple_init_def py_mul_def)

lemma Triple_vector_init_epsoct_raises:
  "varg_epsoct args = Some eps \<Longrightarrow>
   Triple_vector_init np_pi find_root writable h0 args = Inl TypeError"
  by (simp add: Triple_vector_init_def py_sqr_def)

text \<open>
  C4 (the code departs from the claim). The claim: a construction with \<^verbatim>\<open>epsoct\<close>
  succeeds, \<^verbatim>\<open>a1\<close>, \<^verbatim>\<open>a2\<close> and \<^verbatim>\<open>e2\<close> are set to an undefined sentinel and the
  object is ready to integrate. Both constructors do set the three fields to \<^verbatim>\<open>None\<close>
  and then compute with them: \<^verbatim>\<open>Triple.__init__\<close> multiplies \<^verbatim>\<open>self.a1\<close> by \<^verbatim>\<open>au\<close>,
  \<^verbatim>\<open>Triple_vector.__init__\<close> squares \<^verbatim>\<open>self.a1\<close> for \<^verbatim>\<open>Phi0\<close>. With the default
  arguments and \<^verbatim>\<open>epsoct=0.01\<close> each raises \<^verbatim>\<open>TypeError\<close>, whatever the constants, the
  file system, the solver and the root finder are; by the two lemmas above the same holds
  for every other value of \<^verbatim>\<open>epsoct\<close> and of the other arguments.
\<close>

theorem init_with_epsoct_raises:
  "Triple_init k writable h0 (default_args\<lparr>arg_epsoct := Some (1 / 100)\<rparr>) = Inl TypeError \<and>
   Triple_vector_init np_pi find_root writable h1
     (default_vector_args\<lparr>varg_epsoct := Some (1 / 100)\<rparr>) = Inl TypeError"
proof
  show "Triple_init k writable h0 (default_args\<lparr>arg_epsoct := Some (1 / 100)\<rparr>) =
        Inl TypeError"
    by (rule Triple_init_epsoct_raises [where eps = "1 / 100"]) simp
  show "Triple_vector_init np_pi find_root writable h1
          (default_vector_args\<lparr>varg_epsoct := Some (1 / 100)\<rparr>) = Inl TypeError"
    by (rule Triple_vector_init_epsoct_raises [where eps = "1 / 100"]) simp
qed

subsection \<open>The root function at an inclination of 0 and of 180 degrees\<close>

lemma crossnorm_jhatvec: "crossnorm (jhatvec_of inc Omega) = \<bar>sin inc\<bar>"
proof -
  have "(sin inc * sin Omega) ^ 2 + (- sin inc * cos Omega) ^ 2 =
        (sin inc) ^ 2 * (sin Omega) ^ 2 + (sin inc) ^ 2 * (cos Omega) ^ 2"
    by (simp add: power_mult_distrib)
  also have "\<dots> = (sin inc) ^ 2 * ((sin Omega) ^ 2 + (cos Omega) ^ 2)"
    by (simp only: distrib_left)
  also have "\<dots> = (sin inc) ^ 2" by simp
  finally show ?thesis by (simp add: crossnorm_def jhatvec_of_def)
qed

text \<open>The third condition is a number exactly when the divisor is not zero.\<close>

lemma cond3_None_iff: "(snd (snd (evec_root x j g1)) = None) = (crossnorm j = 0)"
  by (cases x, cases j) (simp add: evec_root_def Let_def np_div_def)

lemma cond3_defined_iff:
  "(snd (snd (evec_root x (jhatvec_of inc Omega) g1)) = None) = (sin inc = 0)"
  by (simp add: cond3_None_iff crossnorm_jhatvec)

text \<open>Its value where the divisor is not zero.\<close>

lemma cond3_value:
  "crossnorm j \<noteq> 0 \<Longrightarrow>
   snd (snd (evec_root (x0, x1, x2) j g1)) =
     Some (x0 * fst (snd j) / crossnorm j - x1 * fst j / crossnorm j + cos g1)"
  by (cases j) (simp add: evec_root_def Let_def np_div_def)

text \<open>
  The direction that the constructor stores and hands to the root function, for every
  value of \<^verbatim>\<open>np.pi\<close>.
\<close>

lemma tv_init_fields_jhatvec:
  "tv_jhatvec (tv_init_fields np_pi find_root h0 args epsoct a1v a2v e2v a1sq) =
   jhatvec_of (varg_inc args * np_pi / 180) (varg_longascnode args * np_pi / 180)"
  by (simp add: tv_init_fields_def Let_def)

lemma Triple_vector_init_jhatvec:
  assumes "varg_epsoct args = None" "varg_outfilename args = None"
  shows "map_sum id tv_jhatvec (Triple_vector_init np_pi find_root writable h0 args) =
         Inr (jhatvec_of (varg_inc args * np_pi / 180) (varg_longascnode args * np_pi / 180))"
  using assms
  by (simp add: Triple_vector_init_def py_sqr_def Let_def open_outfile_def tv_init_solver_def
      tv_init_params_def save_initial_params_def tv_update_def calc_Th_def calc_CKL_def
      tv_init_fields_def)

text \<open>
  The sine of the float \<^verbatim>\<open>np.pi\<close> is not zero: the float lies strictly between 0 and
  \<open>\<pi>\<close>. The proof bounds the cosine of its half from below by the Maclaurin polynomial
  of degree 22 less the remainder of order 24, which is evaluated in Horner form with
  every intermediate bound rounded to a multiple of \<open>2\<^sup>-\<^sup>8\<^sup>0\<close>; the bound that
  results is about \<open>6.1 \<times> 10\<^sup>-\<^sup>1\<^sup>7\<close>.
\<close>

lemma cos_Maclaurin_lower:
  fixes x :: real
  assumes "0 < x" "0 < n"
  shows "(\<Sum>m<n. cos_coeff m * x ^ m) - x ^ n / fact n \<le> cos x"
proof -
  obtain t where
    t: "cos x = (\<Sum>m<n. cos_coeff m * x ^ m) + (cos (t + 1 / 2 * real n * pi) / fact n) * x ^ n"
    using Maclaurin_cos_expansion2 [OF assms] by auto
  have "- 1 * (x ^ n / fact n) \<le> cos (t + 1 / 2 * real n * pi) * (x ^ n / fact n)"
    using assms by (intro mult_right_mono) simp_all
  then show ?thesis unfolding t by simp
qed

lemma cos_poly_24:
  fixes x :: real
  shows "(\<Sum>m<24. cos_coeff m * x ^ m) - x ^ 24 / fact 24 =
     (1 - x ^ 2 / 2 * (1 - x ^ 2 / 12 * (1 - x ^ 2 / 30 * (1 - x ^ 2 / 56 * (1 - x ^
     2 / 90 * (1 - x ^ 2 / 132 * (1 - x ^ 2 / 182 * (1 - x ^ 2 / 240 * (1 - x ^ 2 /
     306 * (1 - x ^ 2 / 380 * (1 - x ^ 2 / 462 * (1 + x ^ 2 / 552))))))))))))"
  by (simp add: lessThan_nat_numeral sum.lessThan_Suc cos_coeff_def fact_numeral field_simps)

lemma horner_step_upper:
  "0 \<le> (q::real) \<Longrightarrow> l \<le> t \<Longrightarrow> 1 - q * l \<le> u \<Longrightarrow> 1 - q * t \<le> u"
  by (meson diff_left_mono mult_left_mono order_trans)

lemma horner_step_lower:
  "0 \<le> (q::real) \<Longrightarrow> t \<le> u \<Longrightarrow> l \<le> 1 - q * u \<Longrightarrow> l \<le> 1 - q * t"
  by (meson diff_left_mono mult_left_mono order_trans)

lemma cos_half_pi_double_pos: "0 < cos (pi_double / 2)"
proof -
  define y :: real where "y = 781950621441006189802102638025 / 2 ^ 98"
  have y: "(pi_double / 2) ^ 2 = y"
    by (simp add: pi_double_def y_def power_divide)
  define T11 where "T11 = 1 + y / 552"
  define T10 where "T10 = 1 - y / 462 * T11"
  define T9 where "T9 = 1 - y / 380 * T10"
  define T8 where "T8 = 1 - y / 306 * T9"
  define T7 where "T7 = 1 - y / 240 * T8"
  define T6 where "T6 = 1 - y / 182 * T7"
  define T5 where "T5 = 1 - y / 132 * T6"
  define T4 where "T4 = 1 - y / 90 * T5"
  define T3 where "T3 = 1 - y / 56 * T4"
  define T2 where "T2 = 1 - y / 30 * T3"
  define T1 where "T1 = 1 - y / 12 * T2"
  define T0 where "T0 = 1 - y / 2 * T1"
  have b11: "T11 \<le> 1214329632834674058419015 / 2 ^ 80"
    by (simp add: T11_def y_def)
  have b10: "1202440455389197181699257 / 2 ^ 80 \<le> T10" unfolding T10_def
    by (rule horner_step_lower [OF _ b11]) (simp_all add: y_def)
  have b9: "T9 \<le> 1201118180397157390386808 / 2 ^ 80" unfolding T9_def
    by (rule horner_step_upper [OF _ b10]) (simp_all add: y_def)
  have b8: "1199240720530089774505615 / 2 ^ 80 \<le> T8" unfolding T8_def
    by (rule horner_step_lower [OF _ b9]) (simp_all add: y_def)
  have b7: "T7 \<le> 1196596620142431938598838 / 2 ^ 80" unfolding T7_def
    by (rule horner_step_upper [OF _ b8]) (simp_all add: y_def)
  have b6: "1192703381059015992276817 / 2 ^ 80 \<le> T6" unfolding T6_def
    by (rule horner_step_lower [OF _ b7]) (simp_all add: y_def)
  have b5: "T5 \<le> 1186631292078844663935025 / 2 ^ 80" unfolding T5_def
    by (rule horner_step_upper [OF _ b6]) (simp_all add: y_def)
  have b4: "1176393648995818850943900 / 2 ^ 80 \<le> T4" unfolding T4_def
    by (rule horner_step_lower [OF _ b5]) (simp_all add: y_def)
  have b3: "T3 \<le> 1157093052045242107883154 / 2 ^ 80" unfolding T3_def
    by (rule horner_step_upper [OF _ b4]) (simp_all add: y_def)
  have b2: "1113758730623498850491830 / 2 ^ 80 \<le> T2" unfolding T2_def
    by (rule horner_step_lower [OF _ b3]) (simp_all add: y_def)
  have b1: "T1 \<le> 979918359833100407753802 / 2 ^ 80" unfolding T1_def
    by (rule horner_step_upper [OF _ b2]) (simp_all add: y_def)
  have b0: "73827304 / 2 ^ 80 \<le> T0" unfolding T0_def
    by (rule horner_step_lower [OF _ b1]) (simp_all add: y_def)
  have "0 < T0" using b0 by simp
  also have "T0 = (\<Sum>m<24. cos_coeff m * (pi_double / 2) ^ m) - (pi_double / 2) ^ 24 / fact 24"
    unfolding cos_poly_24 y T0_def T1_def T2_def T3_def T4_def T5_def
      T6_def T7_def T8_def T9_def T10_def T11_def ..
  also have "\<dots> \<le> cos (pi_double / 2)"
    by (rule cos_Maclaurin_lower) (simp_all add: pi_double_def)
  finally show ?thesis .
qed

lemma sin_pi_double_pos: "0 < sin pi_double"
proof -
  have "0 < sin (pi_double / 2)"
    by (rule sin_gt_zero_02) (simp_all add: pi_double_def)
  then have "0 < 2 * sin (pi_double / 2) * cos (pi_double / 2)"
    using cos_half_pi_double_pos by simp
  also have "\<dots> = sin pi_double" using sin_double [of "pi_double / 2"] by simp
  finally show ?thesis .
qed

lemma pi_double_less_pi: "pi_double < pi"
proof (rule ccontr)
  assume "\<not> pi_double < pi"
  then have "pi / 2 \<le> pi_double / 2" by simp
  moreover have "pi_double / 2 \<le> pi"
    using pi_ge_two by (simp add: pi_double_def)
  ultimately have "cos (pi_double / 2) \<le> cos (pi / 2)"
    by (intro cos_monotone_0_pi_le) simp_all
  with cos_half_pi_double_pos show False by simp
qed

lemma cos_pi_double_neg: "cos pi_double < 0"
proof -
  have "pi / 2 < pi_double" using pi_less_4 by (simp add: pi_double_def)
  then have "cos pi_double < cos (pi / 2)"
    using pi_double_less_pi by (intro cos_monotone_0_pi) simp_all
  then show ?thesis by simp
qed

text \<open>
  C10, the claim as stated, at an inclination of 180 degrees. The claim: for an
  inclination of exactly 0 or 180 degrees \<open>j\<^sub>x = j\<^sub>y = 0\<close>, the divisor
  \<open>\<surd>(j\<^sub>x\<^sup>2 + j\<^sub>y\<^sup>2)\<close> of \<^verbatim>\<open>_evec_root\<close> is zero and the third condition is
  undefined. \<^verbatim>\<open>Triple_vector(inc=180)\<close> stores the inclination \<^verbatim>\<open>180 * np.pi / 180\<close>,
  the float \<^verbatim>\<open>np.pi\<close>, whose sine is positive (about \<open>1.2 \<times> 10\<^sup>-\<^sup>1\<^sup>6\<close>; sine and
  cosine are the real functions at the float, of which \<^verbatim>\<open>math.sin\<close> and \<^verbatim>\<open>math.cos\<close>
  return a float within rounding). With the
  default node of 180 degrees and argument of periapsis of zero, \<open>j\<^sub>x\<close> is the square of
  that sine and \<open>j\<^sub>y\<close> is not zero, the divisor is that sine, not zero, and at the
  initial guess \<open>(1/2, 1/2, 1/2)\<close> of the root finder the third condition is a number
  (about \<open>1.5\<close>).
\<close>

theorem evec_root_defined_at_180_degrees:
  "fst (jhatvec_of (180 * pi_double / 180) (180 * pi_double / 180)) = (sin pi_double) ^ 2 \<and>
   fst (snd (jhatvec_of (180 * pi_double / 180) (180 * pi_double / 180))) \<noteq> 0 \<and>
   crossnorm (jhatvec_of (180 * pi_double / 180) (180 * pi_double / 180)) = sin pi_double \<and>
   crossnorm (jhatvec_of (180 * pi_double / 180) (180 * pi_double / 180)) \<noteq> 0 \<and>
   snd (snd (evec_root (1 / 2, 1 / 2, 1 / 2)
               (jhatvec_of (180 * pi_double / 180) (180 * pi_double / 180))
               (0 * pi_double / 180))) =
     Some (1 - (cos pi_double + sin pi_double) / 2)"
proof -
  note s = sin_pi_double_pos and c = cos_pi_double_neg
  have jx: "fst (jhatvec_of pi_double pi_double) = sin pi_double * sin pi_double"
    and jy: "fst (snd (jhatvec_of pi_double pi_double)) = - sin pi_double * cos pi_double"
    by (simp_all add: jhatvec_of_def)
  have cn: "crossnorm (jhatvec_of pi_double pi_double) = sin pi_double"
    using s by (simp add: crossnorm_jhatvec)
  have "snd (snd (evec_root (1 / 2, 1 / 2, 1 / 2) (jhatvec_of pi_double pi_double) 0)) =
        Some (1 / 2 * (- sin pi_double * cos pi_double) / sin pi_double -
              1 / 2 * (sin pi_double * sin pi_double) / sin pi_double + cos 0)"
    using s cond3_value [of "jhatvec_of pi_double pi_double" "1 / 2" "1 / 2" "1 / 2" 0]
    by (simp only: cn jx jy)
  also have "1 / 2 * (- sin pi_double * cos pi_double) / sin pi_double -
             1 / 2 * (sin pi_double * sin pi_double) / sin pi_double + cos 0 =
             1 - (cos pi_double + sin pi_double) / 2"
    using s by (simp add: field_simps)
  finally show ?thesis using s c by (simp add: jx jy cn power2_eq_square)
qed

text \<open>
  C10, amended. \<^verbatim>\<open>_evec_root\<close> divides by \<open>\<surd>(j\<^sub>x\<^sup>2 + j\<^sub>y\<^sup>2)\<close>. For an inclination
  of exactly 0 degrees, whatever the value of \<^verbatim>\<open>np.pi\<close>, the direction \<^verbatim>\<open>jhatvec\<close> that
  the constructor computes has \<open>j\<^sub>x = j\<^sub>y = 0\<close>, the divisor is zero and the third
  condition is undefined, at every point \<open>x\<close> the root finder may try and for every node
  and argument of periapsis. In general the divisor is the modulus of the sine of the
  stored inclination, and the third condition is undefined exactly when that sine is
  zero: the construction of the initial state has the unstated precondition that the sine
  of the stored inclination is not zero, which an inclination of 0 degrees violates.
\<close>

theorem evec_root_undefined_at_zero_inclination:
  "fst (jhatvec_of (0 * np_pi / 180) Omega) = 0 \<and>
   fst (snd (jhatvec_of (0 * np_pi / 180) Omega)) = 0 \<and>
   crossnorm (jhatvec_of (0 * np_pi / 180) Omega) = 0 \<and>
   snd (snd (evec_root x (jhatvec_of (0 * np_pi / 180) Omega) g1)) = None \<and>
   crossnorm (jhatvec_of inc Omega) = \<bar>sin inc\<bar> \<and>
   (snd (snd (evec_root x (jhatvec_of inc Omega) g1)) = None) = (sin inc = 0)"
  by (simp add: cond3_defined_iff crossnorm_jhatvec) (simp add: jhatvec_of_def)

section \<open>The integration modes\<close>

subsection \<open>The CPU time limit\<close>

text \<open>
  With a negative \<^verbatim>\<open>cputstop\<close> and a clock that does not run backwards, the loop test of
  \<^verbatim>\<open>integrate\<close> fails at once, in both classes: the elapsed time is not below the limit.
\<close>

lemma integrate_loop_negative_budget:
  "tr_cputstop s < 0 \<Longrightarrow> tr_tstart s \<le> clock (Suc i) \<Longrightarrow>
   integrate_loop adv k clock (Suc fuel) i s = Some (Inr s)"
  by simp

lemma tv_integrate_loop_negative_budget:
  "tv_cputstop s < 0 \<Longrightarrow> tv_tstart s \<le> clock (Suc i) \<Longrightarrow>
   tv_integrate_loop adv clock (Suc fuel) i s = Some (Inr s)"
  by simp

lemma Triple_integrate_negative_budget:
  assumes "tr_cputstop s < 0" "clock 0 \<le> clock (Suc 0)" "tr_outfilename s = None"
  shows "map_option (map_sum id (\<lambda>s'. (tr_nstep s', tr_t s', tr_solver s')))
           (Triple_integrate adv k clock (Suc fuel) s) =
         Some (Inr (tr_nstep s, tr_t s, tr_solver s))"
  using assms by (simp add: Triple_integrate_def ts_printout_def tr_emit_stdout)

lemma Triple_vector_integrate_negative_budget:
  assumes "tv_cputstop s < 0" "clock 0 \<le> clock (Suc 0)" "tv_outfilename s = None"
  shows "map_option (map_sum id (\<lambda>s'. (tv_nstep s', tv_t s', tv_solver s')))
           (Triple_vector_integrate adv clock (Suc fuel) s) =
         Some (Inr (tv_nstep s, tv_t s, tv_solver s))"
  using assms
  by (simp add: Triple_vector_integrate_def printout_def tv_emit_stdout split: prod.splits)

text \<open>The constructor stores \<^verbatim>\<open>cputstop\<close> as given.\<close>

lemma Triple_init_test_minus_one:
  "Triple_init test_constants (\<lambda>f. True) tape (test_args\<lparr>arg_cputstop := - 1\<rparr>) =
   Inr ((test_triple tape)\<lparr>tr_cputstop := - 1\<rparr>)"
  by (simp add: Triple_init_def init_fields_def init_derived_def init_solver_def
      open_outfile_def test_args_def default_args_def test_constants_def py_mul_def
      update_eq refresh_def calc_C_def calc_G1_def calc_G2_def calc_th_def calc_cosphi_def
      Let_def powr_16_25_3 powr_16_25_5 power_divide power_mult_distrib test_triple_def)

text \<open>
  C3 (the code departs from the claim). The claim: with \<^verbatim>\<open>cputstop = -1\<close> the integration
  has no CPU time limit and steps until \<open>t\<close> reaches \<^verbatim>\<open>tstop\<close>. The loop test is
  \<^verbatim>\<open>time.time() - self.tstart < self.cputstop\<close> with no case for \<open>-1\<close>. On the test
  objects, with a clock that advances one second per reading and a solver that would
  reach \<^verbatim>\<open>tstop = 4\<close> in five steps, \<^verbatim>\<open>integrate\<close> with \<^verbatim>\<open>cputstop = -1\<close> returns
  after no step at \<open>t = 0\<close>; with \<^verbatim>\<open>cputstop = 300\<close> it takes the five steps and ends at
  \<open>t = 4\<close>. The same in both classes.
\<close>

theorem integrate_with_cputstop_minus_one_takes_no_step:
  "map_option (map_sum id (\<lambda>s. (tr_nstep s, tr_t s)))
     (Triple_integrate replay test_constants real 10
        ((test_triple extrema_tape)\<lparr>tr_cputstop := - 1\<rparr>)) = Some (Inr (0, 0)) \<and>
   map_option (map_sum id (\<lambda>s. (tr_nstep s, tr_t s)))
     (Triple_integrate replay test_constants real 10 (test_triple extrema_tape)) =
     Some (Inr (5, 4)) \<and>
   map_option (map_sum id (\<lambda>s. (tv_nstep s, tv_t s)))
     (Triple_vector_integrate replay real 10
        (test_vector_nolimit extrema_tape_v)) = Some (Inr (0, 0)) \<and>
   map_option (map_sum id (\<lambda>s. (tv_nstep s, tv_t s)))
     (Triple_vector_integrate replay real 10 (test_vector extrema_tape_v)) =
     Some (Inr (5, 4))"
proof (intro conjI)
  show "map_option (map_sum id (\<lambda>s. (tr_nstep s, tr_t s)))
     (Triple_integrate replay test_constants real 10
        ((test_triple extrema_tape)\<lparr>tr_cputstop := - 1\<rparr>)) = Some (Inr (0, 0))"
    by (simp add: Triple_integrate_def numeral_nat ts_printout_def tr_emit_stdout
        test_triple_sel)
  show "map_option (map_sum id (\<lambda>s. (tr_nstep s, tr_t s)))
     (Triple_integrate replay test_constants real 10 (test_triple extrema_tape)) =
     Some (Inr (5, 4))"
    by (simp add: Triple_integrate_def numeral_nat ts_printout_def Triple_step_def update_eq
        refresh_th refresh_same readback_same readback_new test_triple_sel tr_emit_stdout
        replay_def extrema_tape_def test_constants_def power_mult_distrib power_divide)
  show "map_option (map_sum id (\<lambda>s. (tv_nstep s, tv_t s)))
     (Triple_vector_integrate replay real 10
        (test_vector_nolimit extrema_tape_v)) = Some (Inr (0, 0))"
    by (simp add: Triple_vector_integrate_def numeral_nat printout_def tv_emit_stdout
        test_vector_nolimit_sel split: prod.splits)
  show "map_option (map_sum id (\<lambda>s. (tv_nstep s, tv_t s)))
     (Triple_vector_integrate replay real 10 (test_vector extrema_tape_v)) =
     Some (Inr (5, 4))"
    by (simp add: Triple_vector_integrate_def numeral_nat printout_def tv_step_sel
        test_vector_sel tv_emit_stdout replay_def extrema_tape_v_def last3_def first3_def
        Let_def split: prod.splits)
qed

subsection \<open>Detection of eccentricity maxima\<close>

text \<open>
  C8. A run whose five steps show the eccentricities \<open>0.1, 0.3, 0.5, 0.4, 0.2\<close> at the
  times \<open>0, 1, 2, 3, 4\<close> makes \<^verbatim>\<open>ecc_extrema\<close> print exactly one line, the pair
  \<open>t = 2\<close>, \<open>e = 0.5\<close>, in \<^verbatim>\<open>Triple\<close> (where the eccentricity is read from the solver's
  state) and in \<^verbatim>\<open>Triple_vector\<close> (where it is the norm of the eccentricity vector).
\<close>

theorem ecc_extrema_reports_the_single_maximum:
  "map_option (map_sum id tr_stdout)
     (Triple_ecc_extrema replay test_constants real 6 (test_triple extrema_tape)) =
     Some (Inr [[2, 1 / 2]]) \<and>
   map_option (map_sum id tv_stdout)
     (Triple_vector_ecc_extrema replay 6 (test_vector extrema_tape_v)) =
     Some (Inr [[2, 1 / 2]])"
proof
  show "map_option (map_sum id tr_stdout)
     (Triple_ecc_extrema replay test_constants real 6 (test_triple extrema_tape)) =
     Some (Inr [[2, 1 / 2]])"
    by (simp add: Triple_ecc_extrema_def numeral_nat Triple_step_def update_eq refresh_th
        refresh_same readback_same readback_new test_triple_sel tr_emit_stdout replay_def
        extrema_tape_def test_constants_def power_mult_distrib power_divide)
  show "map_option (map_sum id tv_stdout)
     (Triple_vector_ecc_extrema replay 6 (test_vector extrema_tape_v)) =
     Some (Inr [[2, 1 / 2]])"
    by (simp add: Triple_vector_ecc_extrema_def numeral_nat tv_step_sel test_vector_sel
        tv_emit_stdout replay_def extrema_tape_v_def last3_def first3_def norm3_x Let_def)
qed

subsection \<open>The output file\<close>

lemma tr_emit_outfile: "tr_emit l s = Inr s' \<Longrightarrow> tr_outfile s' = tr_outfile s"
  by (auto simp: tr_emit_def split: option.splits fstatus.splits)

lemma Triple_step_outfile: "Triple_step adv k s = Inr s' \<Longrightarrow> tr_outfile s' = tr_outfile s"
  by (auto simp: Triple_step_def update_eq refresh_same readback_same split: if_splits)

text \<open>\<^verbatim>\<open>Triple.ecc_extrema\<close> returns with the output file in the state it found it in.\<close>

lemma ecc_extrema_loop_outfile:
  "ecc_extrema_loop adv k clock fuel i t_prev e_prev e_prev2 s = Some (Inr s') \<Longrightarrow>
   tr_outfile s' = tr_outfile s"
proof (induction fuel arbitrary: i t_prev e_prev e_prev2 s)
  case 0
  then show ?case by simp
next
  case (Suc fuel)
  show ?case
  proof (cases "tr_t s < tr_tstop s \<and> clock (Suc i) - tr_tstart s < tr_cputstop s")
    case False
    with Suc.prems show ?thesis by simp
  next
    case True
    with Suc.prems obtain s1 s2 where
      s1: "Triple_step adv k s = Inr s1" and
      s2: "(if e_prev2 < e_prev \<and> e_prev > tr_e1 s1 then tr_emit [t_prev, e_prev] s1
            else Inr s1) = Inr s2" and
      r: "ecc_extrema_loop adv k clock fuel (Suc i) (tr_t s2) (tr_e1 s2) e_prev s2 =
          Some (Inr s')"
      by (auto split: sum.splits)
    from s2 have "tr_outfile s2 = tr_outfile s1"
      by (auto split: if_splits dest: tr_emit_outfile)
    with Triple_step_outfile [OF s1] Suc.IH [OF r] show ?thesis by simp
  qed
qed

lemma Triple_ecc_extrema_never_closes:
  "Triple_ecc_extrema adv k clock fuel s = Some (Inr s') \<Longrightarrow> tr_outfile s' = tr_outfile s"
  by (auto simp: Triple_ecc_extrema_def dest: ecc_extrema_loop_outfile)

text \<open>
  \<^verbatim>\<open>Triple.printflips\<close>, when no global \<^verbatim>\<open>e\<close> exists and the loop is entered: the first
  iteration ends in \<^verbatim>\<open>NameError\<close> (or in the error of the step), and the statement that
  closes the file is not reached.
\<close>

lemma Triple_printflips_raises:
  "glob_e k = None \<Longrightarrow> tr_t s < tr_tstop s \<Longrightarrow>
   Triple_printflips adv k (Suc fuel) s =
     (case Triple_step adv k s of
        Inl err \<Rightarrow> Some (Inl err)
      | Inr s1 \<Rightarrow> Some (Inl NameError))"
  by (simp add: Triple_printflips_def split: sum.splits)

text \<open>The sibling \<^verbatim>\<open>Triple_vector.ecc_extrema\<close> closes the file it was given.\<close>

lemma tv_emit_outfilename:
  "tv_emit l s = Inr s' \<Longrightarrow> tv_outfilename s' = tv_outfilename s"
  by (auto simp: tv_emit_def split: option.splits fstatus.splits)

lemma tv_ecc_extrema_loop_outfilename:
  "tv_ecc_extrema_loop adv fuel t_prev e_prev e_prev2 s = Some (Inr s') \<Longrightarrow>
   tv_outfilename s' = tv_outfilename s"
proof (induction fuel arbitrary: t_prev e_prev e_prev2 s)
  case 0
  then show ?case by simp
next
  case (Suc fuel)
  show ?case
  proof (cases "tv_t s < tv_tstop s")
    case False
    with Suc.prems show ?thesis by simp
  next
    case True
    let ?s1 = "Triple_vector_step adv s"
    from Suc.prems True obtain s2 where
      s2: "(if e_prev2 < e_prev \<and> e_prev > norm3 (tv_evec ?s1)
            then tv_emit [t_prev, e_prev] ?s1 else Inr ?s1) = Inr s2" and
      r: "tv_ecc_extrema_loop adv fuel (tv_t s2) (norm3 (tv_evec ?s1)) e_prev s2 =
          Some (Inr s')"
      by (auto simp: Let_def split: sum.splits)
    from s2 have "tv_outfilename s2 = tv_outfilename ?s1"
      by (auto split: if_splits dest: tv_emit_outfilename)
    with Suc.IH [OF r] show ?thesis by (simp add: tv_step_sel)
  qed
qed

lemma Triple_vector_ecc_extrema_closes:
  assumes "Triple_vector_ecc_extrema adv fuel s = Some (Inr s')" "tv_outfilename s = Some f"
  shows "tv_outfile s' = Some FClosed"
proof -
  from assms(1) obtain s1 where
    l: "tv_ecc_extrema_loop adv fuel 0 0 0 s = Some (Inr s1)" and
    c: "(if tv_outfilename s1 \<noteq> None then Some (tv_close s1) else Some (Inr s1)) =
        Some (Inr s')"
    by (auto simp: Triple_vector_ecc_extrema_def split: option.splits sum.splits)
  from tv_ecc_extrema_loop_outfilename [OF l] assms(2) have "tv_outfilename s1 = Some f"
    by simp
  with c show ?thesis by (auto simp: tv_close_def split: option.splits)
qed

text \<open>So does \<^verbatim>\<open>Triple.integrate\<close>, on every path on which it returns.\<close>

lemma tr_emit_outfilename:
  "tr_emit l s = Inr s' \<Longrightarrow> tr_outfilename s' = tr_outfilename s"
  by (auto simp: tr_emit_def split: option.splits fstatus.splits)

lemma Triple_step_outfilename:
  "Triple_step adv k s = Inr s' \<Longrightarrow> tr_outfilename s' = tr_outfilename s"
  by (auto simp: Triple_step_def update_eq refresh_same readback_same split: if_splits)

lemma integrate_loop_outfilename:
  "integrate_loop adv k clock fuel i s = Some (Inr s') \<Longrightarrow>
   tr_outfilename s' = tr_outfilename s"
proof (induction fuel arbitrary: i s)
  case 0
  then show ?case by simp
next
  case (Suc fuel)
  show ?case
  proof (cases "tr_t s < tr_tstop s \<and> clock (Suc i) - tr_tstart s < tr_cputstop s")
    case False
    with Suc.prems show ?thesis by simp
  next
    case True
    with Suc.prems obtain s1 s2 where
      s1: "Triple_step adv k s = Inr s1" and
      s2: "(if tr_nstep s1 mod tr_outfreq s1 = 0 then ts_printout s1 else Inr s1) = Inr s2" and
      r: "(if tr_a1 s2 * (1 - tr_e1 s2) < tr_r1 s2 + tr_r2 s2
           then Some (Inr (s2\<lparr>tr_collision := True\<rparr>))
           else integrate_loop adv k clock fuel (Suc i) s2) = Some (Inr s')"
      by (auto split: sum.splits if_splits)
    from s2 have e: "tr_outfilename s2 = tr_outfilename s1"
      by (auto simp: ts_printout_def split: if_splits dest: tr_emit_outfilename)
    from r have "tr_outfilename s' = tr_outfilename s2"
      by (auto split: if_splits dest: Suc.IH)
    with e Triple_step_outfilename [OF s1] show ?thesis by simp
  qed
qed

lemma Triple_integrate_closes:
  assumes "Triple_integrate adv k clock fuel s = Some (Inr s')" "tr_outfilename s = Some f"
  shows "tr_outfile s' = Some FClosed"
proof -
  from assms(1) obtain s0 s1 s2 where
    p0: "ts_printout s = Inr s0" and
    l: "integrate_loop adv k clock fuel 0 (s0\<lparr>tr_tstart := clock 0\<rparr>) = Some (Inr s1)" and
    p1: "ts_printout s1 = Inr s2" and
    c: "(if tr_outfilename s2 \<noteq> None then Some (tr_close s2) else Some (Inr s2)) =
        Some (Inr s')"
    by (auto simp: Triple_integrate_def split: option.splits sum.splits)
  from p0 assms(2) have "tr_outfilename s0 = Some f"
    by (auto simp: ts_printout_def dest: tr_emit_outfilename)
  with integrate_loop_outfilename [OF l] have "tr_outfilename s1 = Some f" by simp
  with p1 have "tr_outfilename s2 = Some f"
    by (auto simp: ts_printout_def dest: tr_emit_outfilename)
  with c show ?thesis by (auto simp: tr_close_def split: option.splits)
qed

text \<open>
  C5 (the code departs from the claim). The claim: every integration mode closes the open
  output file before it returns. \<^verbatim>\<open>Triple.ecc_extrema\<close> has no statement that closes it:
  on the test object with an open output file the run over the five samples completes at
  \<^verbatim>\<open>tstop\<close>, has written the one maximum to the file, and returns with the file open.
  \<^verbatim>\<open>Triple.printflips\<close> on the same object leaves its loop by \<^verbatim>\<open>NameError\<close> in the
  first iteration, before the statement that closes the file.
\<close>

theorem ecc_extrema_leaves_the_file_open:
  "map_option (map_sum id (\<lambda>s. (tr_outfile s, tr_filebuf s)))
     (Triple_ecc_extrema replay test_constants real 6 (test_triple_file extrema_tape)) =
     Some (Inr (Some FOpen, [[2, 1 / 2]])) \<and>
   Triple_printflips replay test_constants 6 (test_triple_file extrema_tape) =
     Some (Inl NameError)"
proof
  show "map_option (map_sum id (\<lambda>s. (tr_outfile s, tr_filebuf s)))
     (Triple_ecc_extrema replay test_constants real 6 (test_triple_file extrema_tape)) =
     Some (Inr (Some FOpen, [[2, 1 / 2]]))"
    by (simp add: Triple_ecc_extrema_def numeral_nat Triple_step_def update_eq refresh_th
        refresh_same readback_same readback_new test_triple_file_sel tr_emit_file replay_def
        extrema_tape_def test_constants_def power_mult_distrib power_divide)
  show "Triple_printflips replay test_constants 6 (test_triple_file extrema_tape) =
     Some (Inl NameError)"
    by (simp add: Triple_printflips_def numeral_nat Triple_step_def update_eq refresh_th
        refresh_same readback_same readback_new test_triple_file_sel replay_def
        extrema_tape_def test_constants_def power_mult_distrib power_divide)
qed

subsection \<open>Detection of flips\<close>

lemma jz_of_step:
  "jz_of (Triple_vector_step adv s) =
     (case first3 (sol_y (adv (tv_tstop s) (tv_solver s))) of (jx, jy, jz) \<Rightarrow> jz)"
  by (simp add: jz_of_def tv_step_sel)

lemma jz_of_filebuf: "jz_of (s\<lparr>tv_filebuf := b\<rparr>) = jz_of s"
  by (simp add: jz_of_def)

text \<open>
  C9, the claim as stated, at a concrete run. The sign of \<open>j\<^sub>z\<close> at the five maxima of the
  flip tape is \<open>+, +, -, -, +\<close>; the object, built at an inclination of 120 degrees, starts with \<open>j\<^sub>z < 0\<close>.
  \<^verbatim>\<open>Triple_vector.printflips\<close> writes three lines, not two: the first maximum is compared
  with the sign at the start of the run.
\<close>

theorem printflips_three_flips_counterexample:
  "map_option (map_sum id tv_filebuf)
     (Triple_vector_printflips replay 12 (flip_vector 120)) =
   Some (Inr [[2, 3 / 5], [6, 3 / 5], [10, 3 / 5]])"
  by (simp add: Triple_vector_printflips_def numeral_nat tv_step_sel flip_vector_sel
      tv_emit_file tv_close_def jz_of_step jz_of_filebuf flip_vector_sign replay_def
      flips_tape_def last3_def first3_def norm3_x Let_def)

text \<open>
  C9, amended. In \<^verbatim>\<open>Triple_vector.printflips\<close> the sign of \<open>j\<^sub>z\<close> is read once before
  the loop and then at each step at which a maximum of the eccentricity is detected (the
  step after the maximum). One iteration of the loop, on an object that writes to an open
  file: a line is written exactly when a maximum is detected and the sign read differs
  from the recorded one, and the recorded sign is replaced exactly when a maximum is
  detected. For the signs \<open>+, +, -, -, +\<close> at five successive maxima and a positive sign
  at the start, exactly two flips are written, at the transitions from the second to the
  third and from the fourth to the fifth maximum (the lines carry the time and
  eccentricity of the third and of the fifth maximum).
\<close>

theorem printflips_flip_rule:
  "(tv_t s < tv_tstop s \<and> tv_outfilename s = Some f \<and> tv_outfile s = Some FOpen \<longrightarrow>
      tv_printflips_loop adv (Suc fuel) t_prev e_prev e_prev2 sign_prev s =
        (let s1 = Triple_vector_step adv s;
             e = norm3 (tv_evec s1);
             is_max = (e_prev2 < e_prev \<and> e_prev > e);
             flip = (is_max \<and> sgn (jz_of s1) \<noteq> sign_prev)
         in tv_printflips_loop adv fuel (tv_t s1) e e_prev
              (if is_max then sgn (jz_of s1) else sign_prev)
              (if flip then s1\<lparr>tv_filebuf := tv_filebuf s1 @ [[t_prev, e_prev]]\<rparr> else s1))) \<and>
   Triple_vector_printflips adv fuel s =
     (case tv_printflips_loop adv fuel 0 0 0 (sgn (jz_of s)) s of
        None \<Rightarrow> None
      | Some (Inl err) \<Rightarrow> Some (Inl err)
      | Some (Inr s1) \<Rightarrow> Some (tv_close s1)) \<and>
   map_option (map_sum id tv_filebuf)
     (Triple_vector_printflips replay 12 (flip_vector 60)) =
   Some (Inr [[6, 3 / 5], [10, 3 / 5]])"
proof (intro conjI impI)
  assume a: "tv_t s < tv_tstop s \<and> tv_outfilename s = Some f \<and> tv_outfile s = Some FOpen"
  let ?s1 = "Triple_vector_step adv s"
  have e: "tv_emit [t_prev, e_prev] ?s1 =
           Inr (?s1\<lparr>tv_filebuf := tv_filebuf ?s1 @ [[t_prev, e_prev]]\<rparr>)"
    using a by (simp add: tv_emit_file tv_step_sel)
  show "tv_printflips_loop adv (Suc fuel) t_prev e_prev e_prev2 sign_prev s =
        (let s1 = Triple_vector_step adv s;
             e = norm3 (tv_evec s1);
             is_max = (e_prev2 < e_prev \<and> e_prev > e);
             flip = (is_max \<and> sgn (jz_of s1) \<noteq> sign_prev)
         in tv_printflips_loop adv fuel (tv_t s1) e e_prev
              (if is_max then sgn (jz_of s1) else sign_prev)
              (if flip then s1\<lparr>tv_filebuf := tv_filebuf s1 @ [[t_prev, e_prev]]\<rparr> else s1))"
    using a by (simp add: Let_def e jz_of_def)
next
  show "Triple_vector_printflips adv fuel s =
     (case tv_printflips_loop adv fuel 0 0 0 (sgn (jz_of s)) s of
        None \<Rightarrow> None
      | Some (Inl err) \<Rightarrow> Some (Inl err)
      | Some (Inr s1) \<Rightarrow> Some (tv_close s1))"
    by (simp add: Triple_vector_printflips_def)
next
  show "map_option (map_sum id tv_filebuf)
     (Triple_vector_printflips replay 12 (flip_vector 60)) =
   Some (Inr [[6, 3 / 5], [10, 3 / 5]])"
    by (simp add: Triple_vector_printflips_def numeral_nat tv_step_sel flip_vector_sel
        tv_emit_file tv_close_def jz_of_step jz_of_filebuf flip_vector_sign replay_def
        flips_tape_def last3_def first3_def norm3_x Let_def)
qed

theorem printflips_flip_rule_witness:
  "tv_t (flip_vector 60) < tv_tstop (flip_vector 60) \<and>
   tv_outfilename (flip_vector 60) = Some ''flips.out'' \<and>
   tv_outfile (flip_vector 60) = Some FOpen \<and>
   tv_printflips_loop replay 12 0 0 0 1 (flip_vector 60) =
     tv_printflips_loop replay 11 1 (5 / 13) 0 1 (Triple_vector_step replay (flip_vector 60)) \<and>
   map_option (map_sum id tv_filebuf)
     (Triple_vector_printflips replay 12 (flip_vector 60)) =
   Some (Inr [[6, 3 / 5], [10, 3 / 5]])"
proof -
  have h: "tv_t (flip_vector 60) < tv_tstop (flip_vector 60) \<and>
           tv_outfilename (flip_vector 60) = Some ''flips.out'' \<and>
           tv_outfile (flip_vector 60) = Some FOpen"
    by (simp add: flip_vector_sel)
  have n: "(12::nat) = Suc 11" by simp
  note r = printflips_flip_rule [of "flip_vector 60" "''flips.out''" replay 11 0 0 0 1]
  from r h have
    "tv_printflips_loop replay (Suc 11) 0 0 0 1 (flip_vector 60) =
       (let s1 = Triple_vector_step replay (flip_vector 60);
            e = norm3 (tv_evec s1);
            is_max = ((0::real) < 0 \<and> 0 > e);
            flip = (is_max \<and> sgn (jz_of s1) \<noteq> 1)
        in tv_printflips_loop replay 11 (tv_t s1) e 0
             (if is_max then sgn (jz_of s1) else 1)
             (if flip then s1\<lparr>tv_filebuf := tv_filebuf s1 @ [[0, 0]]\<rparr> else s1))"
    by blast
  then have "tv_printflips_loop replay 12 0 0 0 1 (flip_vector 60) =
     tv_printflips_loop replay 11 1 (5 / 13) 0 1
       (Triple_vector_step replay (flip_vector 60))"
    unfolding n
    by (simp add: Let_def tv_step_sel flip_vector_sel replay_def flips_tape_def last3_def
        norm3_x)
  with h r show ?thesis by blast
qed

end
